theory Spec2Isabelle
  imports Complex_Main
begin

section \<open>Values of the JavaScript runtime\<close>

text \<open>
  The room actor (class \<open>Room\<close>) is TypeScript running on a JavaScript runtime. Strings are
  modelled as HOL strings (ASCII text; the two constants of the source that hold a dash outside
  ASCII carry it as its UTF-8 bytes). Numbers that reach the code from outside (an index sent by
  a client or chosen by the language model) are IEEE doubles: a finite value is a rational, and
  the three special values are kept apart, because the comparisons of the source treat them
  differently.
\<close>

datatype jsnum = Fin rat | NaN | PosInf | NegInf

text \<open>\<open>x < k\<close> and \<open>x >= k\<close> of the source, for a number \<open>x\<close> and a finite \<open>k\<close>. Every
  comparison with \<open>NaN\<close> is false.\<close>

fun num_lt :: "jsnum \<Rightarrow> rat \<Rightarrow> bool" where
  "num_lt (Fin q) k = (q < k)"
| "num_lt NaN k = False"
| "num_lt PosInf k = False"
| "num_lt NegInf k = True"

fun num_ge :: "jsnum \<Rightarrow> rat \<Rightarrow> bool" where
  "num_ge (Fin q) k = (k \<le> q)"
| "num_ge NaN k = False"
| "num_ge PosInf k = True"
| "num_ge NegInf k = False"

definition isInteger :: "rat \<Rightarrow> bool" where
  "isInteger q = (of_int \<lfloor>q\<rfloor> = q)"

text \<open>Truncation towards zero, as \<open>ToIntegerOrInfinity\<close> does on a finite number.\<close>

definition truncate :: "rat \<Rightarrow> int" where
  "truncate q = (if 0 \<le> q then \<lfloor>q\<rfloor> else \<lceil>q\<rceil>)"

text \<open>\<open>xs.splice(index, 1)\<close>: the start position is the truncated index, counted from the end
  when negative and clamped to the array; at most one element is removed. The result is
  the first element of the returned array (\<open>None\<close> for \<open>undefined\<close>) and the array left.\<close>

definition spliceStart :: "jsnum \<Rightarrow> nat \<Rightarrow> nat" where
  "spliceStart index len =
     (case index of
        NaN \<Rightarrow> 0
      | NegInf \<Rightarrow> 0
      | PosInf \<Rightarrow> len
      | Fin q \<Rightarrow>
          (let r = truncate q in
           if r < 0 then nat (max (int len + r) 0) else min (nat r) len))"

definition splice1 :: "jsnum \<Rightarrow> 'a list \<Rightarrow> 'a option \<times> 'a list" where
  "splice1 index xs =
     (let start = spliceStart index (length xs) in
      if start < length xs
      then (Some (xs ! start), take start xs @ drop (Suc start) xs)
      else (None, xs))"

text \<open>\<open>xs[index]\<close>: the property named by the number exists only for an integer inside
  the array; anything else reads \<open>undefined\<close>.\<close>

definition elementIndex :: "jsnum \<Rightarrow> nat \<Rightarrow> nat option" where
  "elementIndex index len =
     (case index of
        Fin q \<Rightarrow> (if isInteger q \<and> 0 \<le> q \<and> q < of_nat len then Some (nat \<lfloor>q\<rfloor>) else None)
      | NaN \<Rightarrow> None
      | PosInf \<Rightarrow> None
      | NegInf \<Rightarrow> None)"

text \<open>Decimal digits of a natural number (array lengths and counts in the messages).\<close>

fun showNat :: "nat \<Rightarrow> string" where
  "showNat n = (if n < 10 then [''0123456789'' ! n]
                else showNat (n div 10) @ [''0123456789'' ! (n mod 10)])"

declare showNat.simps [simp del]

text \<open>
  What the code takes from the runtime and the platform without computing it itself: the
  conversion of a string to a number (\<open>Number(s)\<close>), the printing of a number that is not a
  safe integer, \<open>JSON.parse\<close> on the argument string of a tool call, \<open>crypto.randomUUID()\<close> (the
  n-th call) and \<open>new Date().toLocaleDateString()\<close>. Every statement below holds for every such
  runtime.
\<close>

datatype jsval = JUndefined | JNull | JBool bool | JNum jsnum | JStr string

datatype js_error = Error string | TypeError string | Thrown string

datatype tool_args = ArgsUndefined | ArgsNull | ArgsObject "string \<Rightarrow> jsval"

record js_runtime =
  stringToNumber :: "string \<Rightarrow> jsnum"
  otherNumberToString :: "rat \<Rightarrow> string"
  JSON_parse :: "string \<Rightarrow> js_error + tool_args"
  randomUUID :: "nat \<Rightarrow> string"
  toLocaleDateString :: "int \<Rightarrow> string"

text \<open>\<open>String(n)\<close> for a number: an integer up to \<open>2^53\<close> in absolute value prints as its
  decimal digits.\<close>

definition numberToString :: "js_runtime \<Rightarrow> jsnum \<Rightarrow> string" where
  "numberToString rt n =
     (case n of
        NaN \<Rightarrow> ''NaN''
      | PosInf \<Rightarrow> ''Infinity''
      | NegInf \<Rightarrow> ''-Infinity''
      | Fin q \<Rightarrow>
          (if isInteger q \<and> \<bar>q\<bar> \<le> 9007199254740992
           then (if q < 0 then ''-'' else []) @ showNat (nat \<bar>\<lfloor>q\<rfloor>\<bar>)
           else otherNumberToString rt q))"

text \<open>\<open>String(err)\<close> for a thrown value; \<open>Thrown\<close> is a value of any other kind, carried
  as the string that \<open>String\<close> gives for it.\<close>

fun errToString :: "js_error \<Rightarrow> string" where
  "errToString (Error m) = (if m = [] then ''Error'' else ''Error: '' @ m)"
| "errToString (TypeError m) = (if m = [] then ''TypeError'' else ''TypeError: '' @ m)"
| "errToString (Thrown s) = s"

text \<open>\<open>v ?? d\<close>, \<open>String(v)\<close> and \<open>Number(v)\<close>.\<close>

fun nullish :: "jsval \<Rightarrow> jsval \<Rightarrow> jsval" where
  "nullish JUndefined d = d"
| "nullish JNull d = d"
| "nullish v d = v"

fun toString :: "js_runtime \<Rightarrow> jsval \<Rightarrow> string" where
  "toString rt JUndefined = ''undefined''"
| "toString rt JNull = ''null''"
| "toString rt (JBool b) = (if b then ''true'' else ''false'')"
| "toString rt (JNum n) = numberToString rt n"
| "toString rt (JStr s) = s"

fun toNumber :: "js_runtime \<Rightarrow> jsval \<Rightarrow> jsnum" where
  "toNumber rt JUndefined = NaN"
| "toNumber rt JNull = Fin 0"
| "toNumber rt (JBool b) = (if b then Fin 1 else Fin 0)"
| "toNumber rt (JNum n) = n"
| "toNumber rt (JStr s) = stringToNumber rt s"

text \<open>Reading a property of the argument object of a tool call throws when the object is
  \<open>null\<close> or \<open>undefined\<close>.\<close>

fun argGet :: "tool_args \<Rightarrow> string \<Rightarrow> js_error + jsval" where
  "argGet ArgsUndefined k =
     Inl (TypeError (''Cannot read properties of undefined (reading '' @ [CHR 0x27] @ k @ [CHR 0x27] @ '')''))"
| "argGet ArgsNull k =
     Inl (TypeError (''Cannot read properties of null (reading '' @ [CHR 0x27] @ k @ [CHR 0x27] @ '')''))"
| "argGet (ArgsObject f) k = Inr (f k)"

subsection \<open>String operations\<close>

definition isWhiteSpace :: "char \<Rightarrow> bool" where
  "isWhiteSpace c = (c \<in> set [CHR 0x09, CHR 0x0A, CHR 0x0B, CHR 0x0C, CHR 0x0D, CHR 0x20])"

definition trim :: "string \<Rightarrow> string" where
  "trim s = rev (dropWhile isWhiteSpace (rev (dropWhile isWhiteSpace s)))"

definition startsWith :: "string \<Rightarrow> string \<Rightarrow> bool" where
  "startsWith s p = (take (length p) s = p)"

fun join :: "string \<Rightarrow> string list \<Rightarrow> string" where
  "join sep [] = []"
| "join sep [x] = x"
| "join sep (x # y # ys) = x @ sep @ join sep (y # ys)"

text \<open>\<open>a || b\<close> on strings: the empty string is falsy.\<close>

definition orElse :: "string \<Rightarrow> string \<Rightarrow> string" where
  "orElse a b = (if a = [] then b else a)"

definition lowerChar :: "char \<Rightarrow> char" where
  "lowerChar c =
     (if 65 \<le> (of_char c :: nat) \<and> (of_char c :: nat) \<le> 90 then char_of ((of_char c :: nat) + 32) else c)"

definition toLowerCase :: "string \<Rightarrow> string" where
  "toLowerCase s = map lowerChar s"


section \<open>Data model\<close>

text \<open>
  The interfaces of the source. A field whose name is a keyword or a constant of the logic is
  renamed: \<open>ChatEntry.text\<close> is \<open>chat_text\<close>, \<open>TodoItem.text\<close> and \<open>TodoItem.done\<close> are
  \<open>todo_text\<close> and \<open>todo_done\<close>, \<open>Artifact.id\<close> and \<open>Artifact.type\<close> are \<open>art_id\<close> and
  \<open>art_type\<close>.
\<close>

record ChatEntry =
  user :: string
  chat_text :: string
  ts :: int

record TodoItem =
  todo_text :: string
  todo_done :: bool

record PinnedMemory =
  memories :: "string list"
  todos :: "TodoItem list"

record Artifact =
  art_id :: string
  art_type :: string
  title :: string
  content :: string
  createdAt :: int
  createdBy :: string

record RoomSettings =
  systemPrompt :: string
  aiAutoRespond :: bool

definition HEARTBEAT_INTERVAL_MS :: int where "HEARTBEAT_INTERVAL_MS = 30000"
definition STALE_TIMEOUT_MS :: int where "STALE_TIMEOUT_MS = 45000"
definition MAX_HISTORY :: nat where "MAX_HISTORY = 50"
definition AI_CONTEXT_MESSAGES :: nat where "AI_CONTEXT_MESSAGES = 30"
definition HISTORY_FLUSH_INTERVAL :: nat where "HISTORY_FLUSH_INTERVAL = 5"

definition emDash :: string where
  "emDash = [CHR 0xE2, CHR 0x80, CHR 0x94]"

definition DEFAULT_SYSTEM_PROMPT :: string where
  "DEFAULT_SYSTEM_PROMPT =
     ''You are a friendly AI participant in a collaborative chat room called AgentWorkspaces. ''
     @ ''Chat naturally, be warm and conversational, and engage with what people are saying. ''
     @ ''You can also help with tasks, answer questions, and summarize discussions when asked. ''
     @ ''Keep responses concise but never robotic '' @ emDash @ '' you'' @ [CHR 0x27]
     @ ''re part of the group, not a help desk.''"

definition DEFAULT_SETTINGS :: RoomSettings where
  "DEFAULT_SETTINGS = \<lparr>systemPrompt = DEFAULT_SYSTEM_PROMPT, aiAutoRespond = False\<rparr>"

subsection \<open>The persistent store\<close>

text \<open>
  The store holds whole values under the four keys \<open>pinned\<close>, \<open>history\<close>, \<open>artifacts\<close> and
  \<open>settings\<close>, and one alarm time. A stored todo list is of one shape throughout, as the
  program wrote it: plain strings (the legacy form) or \<open>{text, done}\<close> items; the empty array
  is the same stored value in both forms. Stored settings may lack a field.
\<close>

datatype stored_todos = LegacyTodos "string list" | TodoItems "TodoItem list"

record StoredPinned =
  sp_memories :: "string list"
  sp_todos :: stored_todos

record SettingsPatch =
  p_systemPrompt :: "string option"
  p_aiAutoRespond :: "bool option"

record storage =
  st_pinned :: "StoredPinned option"
  st_history :: "ChatEntry list option"
  st_artifacts :: "Artifact list option"
  st_settings :: "SettingsPatch option"
  st_alarm :: "int option"

datatype put_entry =
    PutPinned PinnedMemory
  | PutHistory "ChatEntry list"
  | PutArtifacts "Artifact list"
  | PutSettings RoomSettings

fun applyPut :: "put_entry \<Rightarrow> storage \<Rightarrow> storage" where
  "applyPut (PutPinned p) st =
     st\<lparr>st_pinned := Some \<lparr>sp_memories = memories p, sp_todos = TodoItems (todos p)\<rparr>\<rparr>"
| "applyPut (PutHistory h) st = st\<lparr>st_history := Some h\<rparr>"
| "applyPut (PutArtifacts a) st = st\<lparr>st_artifacts := Some a\<rparr>"
| "applyPut (PutSettings x) st =
     st\<lparr>st_settings := Some \<lparr>p_systemPrompt = Some (systemPrompt x),
                                 p_aiAutoRespond = Some (aiAutoRespond x)\<rparr>\<rparr>"

subsection \<open>Frames pushed to clients\<close>

type_synonym ws = nat

datatype ready_state = CONNECTING | OPEN | CLOSING | CLOSED

text \<open>An entry of the artifact index: id, type, title, createdAt, createdBy.\<close>

type_synonym index_item = "string \<times> string \<times> string \<times> int \<times> string"

definition indexItem :: "Artifact \<Rightarrow> index_item" where
  "indexItem a = (art_id a, art_type a, title a, createdAt a, createdBy a)"

datatype frame =
    Pong
  | ChatFrame string string int
  | PresenceFrame nat
  | MemoryUpdate PinnedMemory
  | ArtifactListFrame "index_item list"
  | ArtifactCreated Artifact
  | ArtifactDeleted string
  | ArtifactDetail Artifact
  | SettingsUpdate RoomSettings
  | ExportFrame PinnedMemory "ChatEntry list" "Artifact list"
  | ClearChat

subsection \<open>AI turns in flight\<close>

text \<open>
  A message of the transcript given to the model: role, content and, for a tool result, the
  name of the tool. A turn in flight waits for the first or the second answer of the model,
  and carries what its \<open>then\<close> handler will do with the reply: post it as a chat message
  (\<open>triggerAI\<close>) or store it as an artifact (\<open>artifact.create\<close> in mode \<open>ai\<close>: title, type and
  author).
\<close>

datatype ai_msg = AiMsg string string "string option"

datatype ai_stage = AwaitFirst "ai_msg list" | AwaitSecond "ai_msg list"

datatype ai_then = ChatReply | ArtifactReply string string string

type_synonym ai_task = "ai_then \<times> ai_stage"

subsection \<open>The actor and its platform\<close>

text \<open>
  The fields of class \<open>Room\<close> (from \<open>connIds\<close> to \<open>pinnedFlushTimer\<close>, which is true while the
  timer is set), the module variable \<open>nextConnId\<close>, and the platform the actor runs on: the
  accepted sockets in the order \<open>ctx.getWebSockets()\<close> lists them, their ready states, the
  store, the log of \<open>storage.put\<close> calls (one entry per call, with all the keys it writes),
  the frames sent so far (socket and frame, in order), the AI turns in flight and the number
  of UUIDs drawn.
\<close>

record room =
  connIds :: "ws \<rightharpoonup> string"
  clientIds :: "ws \<rightharpoonup> string"
  userNames :: "ws \<rightharpoonup> string"
  lastSeen :: "ws \<rightharpoonup> int"
  heartbeatAlarm :: bool
  history :: "ChatEntry list"
  pinned :: PinnedMemory
  artifacts :: "Artifact list"
  settings :: RoomSettings
  aiRunning :: bool
  loaded :: bool
  historyDirty :: nat
  pinnedFlushTimer :: bool
  nextConnId :: nat
  sockets :: "ws list"
  readyState :: "ws \<Rightarrow> ready_state"
  storage :: storage
  writes :: "put_entry list list"
  sent :: "(ws \<times> frame) list"
  pendingAI :: "ai_task list"
  uuidCount :: nat

text \<open>A newly constructed actor over a given store: the field initialisers of the class.\<close>

definition newRoom :: "storage \<Rightarrow> room" where
  "newRoom st =
     \<lparr>connIds = Map.empty, clientIds = Map.empty, userNames = Map.empty, lastSeen = Map.empty,
      heartbeatAlarm = False, history = [], pinned = \<lparr>memories = [], todos = []\<rparr>,
      artifacts = [], settings = DEFAULT_SETTINGS, aiRunning = False, loaded = False,
      historyDirty = 0, pinnedFlushTimer = False, nextConnId = 1, sockets = [],
      readyState = (\<lambda>w. CLOSED), storage = st, writes = [], sent = [], pendingAI = [],
      uuidCount = 0\<rparr>"

text \<open>
  After hibernation the platform constructs the object again: every field of the class is
  back at its initialiser, while sockets, store and the module variable stay.
\<close>

definition hibernate :: "room \<Rightarrow> room" where
  "hibernate s =
     s\<lparr>connIds := Map.empty, clientIds := Map.empty, userNames := Map.empty,
       lastSeen := Map.empty, heartbeatAlarm := False, history := [],
       pinned := \<lparr>memories = [], todos = []\<rparr>, artifacts := [], settings := DEFAULT_SETTINGS,
       aiRunning := False, loaded := False, historyDirty := 0, pinnedFlushTimer := False\<rparr>"

section \<open>Sending\<close>

definition getOpenSockets :: "room \<Rightarrow> ws list" where
  "getOpenSockets s = filter (\<lambda>w. readyState s w = OPEN) (sockets s)"

definition ws_send :: "ws \<Rightarrow> frame \<Rightarrow> room \<Rightarrow> room" where
  "ws_send w f s = s\<lparr>sent := sent s @ [(w, f)]\<rparr>"

definition broadcast :: "frame \<Rightarrow> room \<Rightarrow> room" where
  "broadcast f s = fold (\<lambda>w. ws_send w f) (getOpenSockets s) s"

definition broadcastPresence :: "room \<Rightarrow> room" where
  "broadcastPresence s =
     (let socks = getOpenSockets s
      in fold (\<lambda>w. ws_send w (PresenceFrame (length socks))) socks s)"

definition broadcastSystem :: "int \<Rightarrow> string \<Rightarrow> room \<Rightarrow> room" where
  "broadcastSystem now t s = broadcast (ChatFrame ''System'' t now) s"

definition broadcastMemoryUpdate :: "room \<Rightarrow> room" where
  "broadcastMemoryUpdate s = broadcast (MemoryUpdate (pinned s)) s"

section \<open>Persistence\<close>

definition storage_put :: "put_entry list \<Rightarrow> room \<Rightarrow> room" where
  "storage_put kvs s = s\<lparr>storage := fold applyPut kvs (storage s), writes := writes s @ [kvs]\<rparr>"

definition schedulePinnedFlush :: "room \<Rightarrow> room" where
  "schedulePinnedFlush s = (if pinnedFlushTimer s then s else s\<lparr>pinnedFlushTimer := True\<rparr>)"

text \<open>The callback of the timer set by \<open>schedulePinnedFlush\<close>.\<close>

definition pinnedFlushFires :: "room \<Rightarrow> room" where
  "pinnedFlushFires s = (let s1 = s\<lparr>pinnedFlushTimer := False\<rparr> in storage_put [PutPinned (pinned s1)] s1)"

definition maybeFlushHistory :: "room \<Rightarrow> room" where
  "maybeFlushHistory s =
     (let s1 = s\<lparr>historyDirty := historyDirty s + 1\<rparr>
      in if historyDirty s1 \<ge> HISTORY_FLUSH_INTERVAL
         then storage_put [PutHistory (history s1)] (s1\<lparr>historyDirty := 0\<rparr>)
         else s1)"

text \<open>
  \<open>ensureLoaded\<close>: one batched read of the four keys. A stored todo list that is not empty
  and starts with a string is mapped to \<open>{text, done: false}\<close> items and written back.
\<close>

definition ensureLoaded :: "room \<Rightarrow> room" where
  "ensureLoaded s =
     (if loaded s then s
      else
        let s0 = s\<lparr>loaded := True\<rparr>;
            st = storage s0;
            s1 = (case st_pinned st of
                    None \<Rightarrow> s0
                  | Some sp \<Rightarrow>
                      (case sp_todos sp of
                         TodoItems items \<Rightarrow>
                           s0\<lparr>pinned := \<lparr>memories = sp_memories sp, todos = items\<rparr>\<rparr>
                       | LegacyTodos [] \<Rightarrow>
                           s0\<lparr>pinned := \<lparr>memories = sp_memories sp, todos = []\<rparr>\<rparr>
                       | LegacyTodos (t # rest) \<Rightarrow>
                           (let p = \<lparr>memories = sp_memories sp,
                                    todos = map (\<lambda>t. \<lparr>todo_text = t, todo_done = False\<rparr>) (t # rest)\<rparr>
                            in storage_put [PutPinned p] (s0\<lparr>pinned := p\<rparr>))));
            s2 = (case st_history st of None \<Rightarrow> s1 | Some h \<Rightarrow> s1\<lparr>history := h\<rparr>);
            s3 = (case st_artifacts st of None \<Rightarrow> s2 | Some a \<Rightarrow> s2\<lparr>artifacts := a\<rparr>);
            s4 = (case st_settings st of
                    None \<Rightarrow> s3
                  | Some x \<Rightarrow>
                      s3\<lparr>settings :=
                           \<lparr>systemPrompt =
                              (case p_systemPrompt x of None \<Rightarrow> systemPrompt DEFAULT_SETTINGS | Some v \<Rightarrow> v),
                            aiAutoRespond =
                              (case p_aiAutoRespond x of None \<Rightarrow> aiAutoRespond DEFAULT_SETTINGS | Some v \<Rightarrow> v)\<rparr>\<rparr>)
        in s4)"

section \<open>Chat history\<close>

definition broadcastChat :: "int \<Rightarrow> string \<Rightarrow> string \<Rightarrow> room \<Rightarrow> room" where
  "broadcastChat now u t s =
     (let entry = \<lparr>user = u, chat_text = t, ts = now\<rparr>;
          h1 = history s @ [entry];
          h2 = (if length h1 > MAX_HISTORY then drop (length h1 - MAX_HISTORY) h1 else h1);
          s1 = maybeFlushHistory (s\<lparr>history := h2\<rparr>)
      in broadcast (ChatFrame u t now) s1)"


section \<open>Pinned memory and artifacts\<close>

text \<open>
  The reusable mutations. Each returns the string of the source, or the error thrown while
  computing it, and the state at that moment.
\<close>

definition nl :: string where
  "nl = [CHR 0x0A]"

definition dq :: string where
  "dq = [CHR 0x22]"

definition doAddMemory :: "string \<Rightarrow> room \<Rightarrow> (js_error + string) \<times> room" where
  "doAddMemory t s =
     (let s1 = s\<lparr>pinned := (pinned s)\<lparr>memories := memories (pinned s) @ [t]\<rparr>\<rparr>;
          s2 = schedulePinnedFlush s1;
          s3 = broadcastMemoryUpdate s2
      in (Inr (''Added memory: '' @ dq @ t @ dq), s3))"

definition doDeleteMemory :: "js_runtime \<Rightarrow> jsnum \<Rightarrow> room \<Rightarrow> (js_error + string) \<times> room" where
  "doDeleteMemory rt index s =
     (let ms = memories (pinned s) in
      if num_lt index 0 \<or> num_ge index (of_nat (length ms))
      then (Inr (''Invalid memory index '' @ numberToString rt index @ ''. There are ''
                 @ showNat (length ms) @ '' memories (0-indexed).''), s)
      else
        (case splice1 index ms of
           (removed, ms') \<Rightarrow>
             (let s1 = s\<lparr>pinned := (pinned s)\<lparr>memories := ms'\<rparr>\<rparr>;
                  s2 = schedulePinnedFlush s1;
                  s3 = broadcastMemoryUpdate s2
              in (Inr (''Deleted memory at index '' @ numberToString rt index @ '': '' @ dq
                       @ (case removed of None \<Rightarrow> ''undefined'' | Some r \<Rightarrow> r) @ dq), s3))))"

definition doAddTodo :: "string \<Rightarrow> room \<Rightarrow> (js_error + string) \<times> room" where
  "doAddTodo t s =
     (let s1 = s\<lparr>pinned := (pinned s)\<lparr>todos := todos (pinned s) @ [\<lparr>todo_text = t, todo_done = False\<rparr>]\<rparr>\<rparr>;
          s2 = schedulePinnedFlush s1;
          s3 = broadcastMemoryUpdate s2
      in (Inr (''Added todo: '' @ dq @ t @ dq), s3))"

definition doDeleteTodo :: "js_runtime \<Rightarrow> jsnum \<Rightarrow> room \<Rightarrow> (js_error + string) \<times> room" where
  "doDeleteTodo rt index s =
     (let ts = todos (pinned s) in
      if num_lt index 0 \<or> num_ge index (of_nat (length ts))
      then (Inr (''Invalid todo index '' @ numberToString rt index @ ''. There are ''
                 @ showNat (length ts) @ '' todos (0-indexed).''), s)
      else
        (case splice1 index ts of
           (removed, ts') \<Rightarrow>
             (let s1 = s\<lparr>pinned := (pinned s)\<lparr>todos := ts'\<rparr>\<rparr>;
                  s2 = schedulePinnedFlush s1;
                  s3 = broadcastMemoryUpdate s2
              in (case removed of
                    None \<Rightarrow>
                      (Inl (TypeError (''Cannot read properties of undefined (reading ''
                                       @ [CHR 0x27] @ ''text'' @ [CHR 0x27] @ '')'')), s3)
                  | Some r \<Rightarrow>
                      (Inr (''Deleted todo at index '' @ numberToString rt index @ '': '' @ dq
                            @ todo_text r @ dq), s3)))))"

definition doToggleTodo :: "js_runtime \<Rightarrow> jsnum \<Rightarrow> room \<Rightarrow> (js_error + string) \<times> room" where
  "doToggleTodo rt index s =
     (let ts = todos (pinned s) in
      if num_lt index 0 \<or> num_ge index (of_nat (length ts))
      then (Inr (''Invalid todo index '' @ numberToString rt index @ ''. There are ''
                 @ showNat (length ts) @ '' todos (0-indexed).''), s)
      else
        (case elementIndex index (length ts) of
           None \<Rightarrow>
             (Inl (TypeError (''Cannot read properties of undefined (reading ''
                              @ [CHR 0x27] @ ''done'' @ [CHR 0x27] @ '')'')), s)
         | Some i \<Rightarrow>
             (let t = (ts ! i)\<lparr>todo_done := \<not> todo_done (ts ! i)\<rparr>;
                  s1 = s\<lparr>pinned := (pinned s)\<lparr>todos := ts[i := t]\<rparr>\<rparr>;
                  s2 = schedulePinnedFlush s1;
                  s3 = broadcastMemoryUpdate s2
              in (Inr (''Todo '' @ dq @ todo_text t @ dq @ '' marked as ''
                       @ (if todo_done t then ''complete'' else ''incomplete'')), s3))))"

definition addArtifact ::
  "js_runtime \<Rightarrow> int \<Rightarrow> string \<Rightarrow> string \<Rightarrow> string \<Rightarrow> string \<Rightarrow> room \<Rightarrow> room" where
  "addArtifact rt now ttl artifactType cont by s =
     (let artifact = \<lparr>art_id = randomUUID rt (uuidCount s), art_type = artifactType, title = ttl,
                      content = cont, createdAt = now, createdBy = by\<rparr>;
          s1 = s\<lparr>uuidCount := Suc (uuidCount s), artifacts := artifacts s @ [artifact]\<rparr>;
          s2 = storage_put [PutArtifacts (artifacts s1)] s1
      in broadcast (ArtifactCreated artifact) s2)"

definition doCreateArtifact ::
  "js_runtime \<Rightarrow> int \<Rightarrow> string \<Rightarrow> string \<Rightarrow> string \<Rightarrow> room \<Rightarrow> (js_error + string) \<times> room" where
  "doCreateArtifact rt now ttl artifactType cont s =
     (Inr (''Created artifact: '' @ dq @ ttl @ dq @ '' (type: '' @ artifactType @ '')''),
      addArtifact rt now ttl artifactType cont ''AI'' s)"

definition doClearMemories :: "room \<Rightarrow> (js_error + string) \<times> room" where
  "doClearMemories s =
     (let count = length (memories (pinned s)) in
      if count = 0 then (Inr ''No memories to clear.'', s)
      else
        (let s1 = s\<lparr>pinned := (pinned s)\<lparr>memories := []\<rparr>\<rparr>;
             s2 = schedulePinnedFlush s1;
             s3 = broadcastMemoryUpdate s2
         in (Inr (''Cleared all '' @ showNat count @ '' memories.''), s3)))"

definition doClearTodos :: "room \<Rightarrow> (js_error + string) \<times> room" where
  "doClearTodos s =
     (let count = length (todos (pinned s)) in
      if count = 0 then (Inr ''No todos to clear.'', s)
      else
        (let s1 = s\<lparr>pinned := (pinned s)\<lparr>todos := []\<rparr>\<rparr>;
             s2 = schedulePinnedFlush s1;
             s3 = broadcastMemoryUpdate s2
         in (Inr (''Cleared all '' @ showNat count @ '' todos.''), s3)))"

definition doDeleteArtifact :: "string \<Rightarrow> room \<Rightarrow> (js_error + string) \<times> room" where
  "doDeleteArtifact ident s =
     (case find (\<lambda>a. art_id a = ident \<or> toLowerCase (title a) = toLowerCase ident) (artifacts s) of
        None \<Rightarrow>
          (Inr (''Artifact not found: '' @ dq @ ident @ dq @ ''. Available: ''
                @ orElse (join '', '' (map (\<lambda>a. dq @ title a @ dq @ '' ('' @ art_id a @ '')'') (artifacts s)))
                         ''none''), s)
      | Some artifact \<Rightarrow>
          (let s1 = s\<lparr>artifacts := filter (\<lambda>a. art_id a \<noteq> art_id artifact) (artifacts s)\<rparr>;
               s2 = storage_put [PutArtifacts (artifacts s1)] s1;
               s3 = broadcast (ArtifactDeleted (art_id artifact)) s2
           in (Inr (''Deleted artifact: '' @ dq @ title artifact @ dq), s3)))"

definition buildArtifactPrompt :: "string \<Rightarrow> string \<Rightarrow> string" where
  "buildArtifactPrompt artifactType ttl =
     (let custom = (if ttl \<noteq> [] then ''Create content about: '' @ ttl
                    else ''Create useful content based on the recent discussion.'') in
      if artifactType = ''summary''
      then ''Create a concise summary of the recent discussion. Include key points and open questions.''
      else if artifactType = ''plan''
      then ''Create an action plan based on the recent discussion. List concrete next steps with owners if mentioned.''
      else if artifactType = ''notes''
      then ''Create clean, organized notes from the recent discussion.''
      else custom)"

definition inferTitle :: "js_runtime \<Rightarrow> int \<Rightarrow> string \<Rightarrow> string" where
  "inferTitle rt now artifactType =
     (let d = toLocaleDateString rt now in
      if artifactType = ''summary'' then ''Summary - '' @ d
      else if artifactType = ''plan'' then ''Action Plan - '' @ d
      else if artifactType = ''notes'' then ''Notes - '' @ d
      else ''Artifact - '' @ d)"

definition formatPinnedMemory :: "room \<Rightarrow> string" where
  "formatPinnedMemory s =
     (let ms = memories (pinned s);
          ts = todos (pinned s);
          parts =
            (if length ms > 0
             then [''Pinned Memories:'' @ nl
                   @ join nl (map (\<lambda>(i, m). ''['' @ showNat i @ ''] '' @ m) (enumerate 0 ms))]
             else [])
            @ (if length ts > 0
               then [''Todos:'' @ nl
                     @ join nl (map (\<lambda>(i, t). ''['' @ showNat i @ ''] [''
                                              @ (if todo_done t then ''x'' else '' '') @ ''] ''
                                              @ todo_text t) (enumerate 0 ts))]
               else [])
      in join (nl @ nl) parts)"

section \<open>AI tools\<close>

text \<open>
  The body of the \<open>try\<close> block of \<open>executeToolCall\<close>: the arguments are read and coerced, then
  the mutation runs. In \<open>create_artifact\<close> the three arguments are read from left to right.
\<close>

definition toolBody ::
  "js_runtime \<Rightarrow> int \<Rightarrow> string \<Rightarrow> tool_args \<Rightarrow> room \<Rightarrow> (js_error + string) \<times> room" where
  "toolBody rt now name args s =
     (if name = ''add_memory'' then
        (case argGet args ''text'' of
           Inl e \<Rightarrow> (Inl e, s)
         | Inr v \<Rightarrow> doAddMemory (toString rt (nullish v (JStr []))) s)
      else if name = ''delete_memory'' then
        (case argGet args ''index'' of
           Inl e \<Rightarrow> (Inl e, s)
         | Inr v \<Rightarrow> doDeleteMemory rt (toNumber rt (nullish v (JNum (Fin (- 1))))) s)
      else if name = ''add_todo'' then
        (case argGet args ''text'' of
           Inl e \<Rightarrow> (Inl e, s)
         | Inr v \<Rightarrow> doAddTodo (toString rt (nullish v (JStr []))) s)
      else if name = ''delete_todo'' then
        (case argGet args ''index'' of
           Inl e \<Rightarrow> (Inl e, s)
         | Inr v \<Rightarrow> doDeleteTodo rt (toNumber rt (nullish v (JNum (Fin (- 1))))) s)
      else if name = ''toggle_todo'' then
        (case argGet args ''index'' of
           Inl e \<Rightarrow> (Inl e, s)
         | Inr v \<Rightarrow> doToggleTodo rt (toNumber rt (nullish v (JNum (Fin (- 1))))) s)
      else if name = ''clear_memories'' then doClearMemories s
      else if name = ''clear_todos'' then doClearTodos s
      else if name = ''create_artifact'' then
        (case argGet args ''title'' of
           Inl e \<Rightarrow> (Inl e, s)
         | Inr vt \<Rightarrow>
             (case argGet args ''type'' of
                Inl e \<Rightarrow> (Inl e, s)
              | Inr vy \<Rightarrow>
                  (case argGet args ''content'' of
                     Inl e \<Rightarrow> (Inl e, s)
                   | Inr vc \<Rightarrow>
                       doCreateArtifact rt now (toString rt (nullish vt (JStr ''Untitled'')))
                         (toString rt (nullish vy (JStr ''notes'')))
                         (toString rt (nullish vc (JStr []))) s)))
      else if name = ''delete_artifact'' then
        (case argGet args ''id'' of
           Inl e \<Rightarrow> (Inl e, s)
         | Inr v \<Rightarrow> doDeleteArtifact (toString rt (nullish v (JStr []))) s)
      else (Inr (''Unknown tool: '' @ name), s))"

text \<open>\<open>executeToolCall\<close>: the \<open>catch\<close> turns whatever the body threw into a string.\<close>

definition executeToolCall ::
  "js_runtime \<Rightarrow> int \<Rightarrow> string \<Rightarrow> tool_args \<Rightarrow> room \<Rightarrow> string \<times> room" where
  "executeToolCall rt now name args s =
     (case toolBody rt now name args s of
        (Inl err, s') \<Rightarrow> (''Tool error: '' @ errToString err, s')
      | (Inr res, s') \<Rightarrow> (res, s'))"

definition toolNames :: "string list" where
  "toolNames = [''add_memory'', ''delete_memory'', ''add_todo'', ''delete_todo'', ''toggle_todo'',
                ''create_artifact'', ''clear_memories'', ''clear_todos'', ''delete_artifact'']"


section \<open>The AI turn\<close>

text \<open>
  \<open>callAI\<close> runs in three pieces, separated by the two calls of the model. The first piece
  builds the transcript from the state at the time of the trigger.
\<close>

definition toolInstructions :: string where
  "toolInstructions =
     ''You also have tools to manage memories, todos, and artifacts '' @ emDash
     @ '' but only use them when someone explicitly asks. For normal conversation, just chat naturally and be friendly.''"

definition buildMessages :: "string \<Rightarrow> room \<Rightarrow> ai_msg list" where
  "buildMessages userPrompt s =
     (let memoryBlock = formatPinnedMemory s;
          selected = drop (length (history s) - AI_CONTEXT_MESSAGES) (history s);
          recentMessages = join nl (map (\<lambda>m. user m @ '': '' @ chat_text m) selected);
          basePrompt = orElse (systemPrompt (settings s)) DEFAULT_SYSTEM_PROMPT;
          sysPrompt =
            join nl (filter (\<lambda>x. x \<noteq> [])
              [basePrompt, [], toolInstructions, [],
               (if memoryBlock \<noteq> [] then ''## Pinned Memory'' @ nl @ memoryBlock else []),
               (if length (artifacts s) > 0
                then ''## Artifacts'' @ nl
                     @ join nl (map (\<lambda>(i, a). showNat i @ ''. '' @ dq @ title a @ dq @ '' (type: ''
                                              @ art_type a @ '', id: '' @ art_id a @ '')'')
                                  (enumerate 0 (artifacts s)))
                else [])]);
          userMessage =
            (if recentMessages \<noteq> []
             then ''Here is the recent conversation in the chat room:'' @ nl @ nl @ recentMessages
                  @ nl @ nl @ ''Now respond to this: '' @ userPrompt
             else userPrompt)
      in [AiMsg ''system'' sysPrompt None, AiMsg ''user'' userMessage None])"

text \<open>
  An answer of the model: the call throws, or returns \<open>response\<close> (\<open>None\<close> when it is missing
  or not a string) and \<open>tool_calls\<close> (\<open>None\<close> when missing). The arguments of a tool call come
  as an object or as a string still to be parsed.
\<close>

datatype call_arguments = ArgString string | ArgValue tool_args

datatype tool_call = ToolCall string call_arguments

datatype infer_reply = InferThrew js_error | InferReturned "string option" "tool_call list option"

datatype ai_progress = Settled "js_error + string" | Continue "ai_msg list"

text \<open>The loop over the tool calls of the first answer; \<open>JSON.parse\<close> is outside the
  \<open>try\<close> of \<open>executeToolCall\<close> and ends the turn when it throws.\<close>

fun runToolCalls ::
  "js_runtime \<Rightarrow> int \<Rightarrow> tool_call list \<Rightarrow> ai_msg list \<Rightarrow> room \<Rightarrow> (js_error + ai_msg list) \<times> room" where
  "runToolCalls rt now [] msgs s = (Inr msgs, s)"
| "runToolCalls rt now (ToolCall name a # cs) msgs s =
     (case (case a of ArgString str \<Rightarrow> JSON_parse rt str | ArgValue v \<Rightarrow> Inr v) of
        Inl e \<Rightarrow> (Inl e, s)
      | Inr args \<Rightarrow>
          (case executeToolCall rt now name args s of
             (toolResult, s') \<Rightarrow>
               runToolCalls rt now cs (msgs @ [AiMsg ''tool'' toolResult (Some name)]) s'))"

text \<open>The check \<open>typeof text !== "string" || text.length === 0\<close> on the text of an
  answer, with the message of the error thrown when it fails.\<close>

definition replyText :: "string option \<Rightarrow> string \<Rightarrow> js_error + string" where
  "replyText response failure =
     (case response of
        None \<Rightarrow> Inl (Error failure)
      | Some t \<Rightarrow> (if length t = 0 then Inl (Error failure) else Inr t))"

definition callAI_first ::
  "js_runtime \<Rightarrow> int \<Rightarrow> ai_msg list \<Rightarrow> infer_reply \<Rightarrow> room \<Rightarrow> ai_progress \<times> room" where
  "callAI_first rt now msgs reply s =
     (case reply of
        InferThrew e \<Rightarrow> (Settled (Inl e), s)
      | InferReturned response tool_calls \<Rightarrow>
          (case tool_calls of
             None \<Rightarrow> (Settled (replyText response ''Empty AI response''), s)
           | Some [] \<Rightarrow> (Settled (replyText response ''Empty AI response''), s)
           | Some (c # cs) \<Rightarrow>
               (case runToolCalls rt now (c # cs)
                       (msgs @ [AiMsg ''assistant'' (case response of None \<Rightarrow> [] | Some t \<Rightarrow> t) None]) s of
                  (Inl e, s') \<Rightarrow> (Settled (Inl e), s')
                | (Inr msgs', s') \<Rightarrow> (Continue msgs', s'))))"

definition callAI_second :: "infer_reply \<Rightarrow> js_error + string" where
  "callAI_second reply =
     (case reply of
        InferThrew e \<Rightarrow> Inl e
      | InferReturned response tool_calls \<Rightarrow>
          replyText response ''Empty AI response after tool calls'')"

text \<open>
  The handlers chained to the promise of \<open>callAI\<close>: \<open>then\<close> on a reply, \<open>catch\<close> on an error,
  and \<open>finally\<close> in both cases.
\<close>

definition aiSettle :: "js_runtime \<Rightarrow> int \<Rightarrow> ai_then \<Rightarrow> js_error + string \<Rightarrow> room \<Rightarrow> room" where
  "aiSettle rt now th outcome s =
     (let s1 =
        (case outcome of
           Inr response \<Rightarrow>
             (case th of
                ChatReply \<Rightarrow>
                  (let a = broadcastChat now ''AI'' response s;
                       b = storage_put [PutHistory (history a)] a
                   in b\<lparr>historyDirty := 0\<rparr>)
              | ArtifactReply ttl artifactType userName \<Rightarrow>
                  addArtifact rt now (orElse ttl (inferTitle rt now artifactType)) artifactType
                    response userName s)
         | Inl err \<Rightarrow> broadcastSystem now (''AI error: '' @ errToString err) s)
      in s1\<lparr>aiRunning := False\<rparr>)"

definition triggerAI :: "int \<Rightarrow> string \<Rightarrow> room \<Rightarrow> room" where
  "triggerAI now userPrompt s =
     (if aiRunning s then broadcastSystem now ''AI is already thinking... please wait.'' s
      else
        (let s1 = s\<lparr>aiRunning := True\<rparr>;
             s2 = broadcastSystem now ''AI is thinking...'' s1
         in s2\<lparr>pendingAI := pendingAI s2 @ [(ChatReply, AwaitFirst (buildMessages userPrompt s2))]\<rparr>))"

text \<open>
  The model answers the \<open>i\<close>-th turn in flight. After the first answer the turn settles or
  waits for the second answer; a settled turn leaves the list and its handlers run.
\<close>

definition removeAt :: "nat \<Rightarrow> 'a list \<Rightarrow> 'a list" where
  "removeAt i xs = take i xs @ drop (Suc i) xs"

definition aiReturns :: "js_runtime \<Rightarrow> int \<Rightarrow> nat \<Rightarrow> infer_reply \<Rightarrow> room \<Rightarrow> room" where
  "aiReturns rt now i reply s =
     (if i < length (pendingAI s)
      then
        (case pendingAI s ! i of
           (th, AwaitFirst msgs) \<Rightarrow>
             (case callAI_first rt now msgs reply s of
                (Settled outcome, s1) \<Rightarrow>
                  aiSettle rt now th outcome (s1\<lparr>pendingAI := removeAt i (pendingAI s1)\<rparr>)
              | (Continue msgs', s1) \<Rightarrow>
                  s1\<lparr>pendingAI := (pendingAI s1)[i := (th, AwaitSecond msgs')]\<rparr>)
         | (th, AwaitSecond msgs) \<Rightarrow>
             aiSettle rt now th (callAI_second reply) (s\<lparr>pendingAI := removeAt i (pendingAI s)\<rparr>))
      else s)"

section \<open>Inbound frames\<close>

text \<open>
  A frame after \<open>JSON.parse\<close>, by its \<open>type\<close>. Fields that the source tests with \<open>typeof\<close> are
  values of any kind; the others have the type of their cast, a string field that is absent
  being the empty string (the source reads them through \<open>||\<close> or compares them only). An index
  that is absent behaves as \<open>NaN\<close> does. \<open>OtherType\<close> is any object or primitive with another
  or no \<open>type\<close>; \<open>ParsedNull\<close> is the JSON text \<open>null\<close>; \<open>Binary\<close> is an \<open>ArrayBuffer\<close>.
\<close>

datatype message =
    Ping
  | Hello jsval jsval
  | MemoryAdd string string
  | MemoryRemove string jsnum
  | MemoryToggle jsnum
  | SettingsUpdateMsg "SettingsPatch option"
  | ArtifactCreate string string string string string
  | ArtifactDelete string
  | ArtifactGet string
  | ArtifactListMsg
  | Chat jsval jsval
  | OtherType

datatype raw_frame = Binary | Unparsable | ParsedNull | Parsed message

definition resetRoom :: "int \<Rightarrow> string \<Rightarrow> room \<Rightarrow> room" where
  "resetRoom now u s =
     (let s1 = s\<lparr>pinned := \<lparr>memories = [], todos = []\<rparr>, history := [], artifacts := [],
                 settings := DEFAULT_SETTINGS\<rparr>;
          s2 = storage_put [PutPinned (pinned s1), PutHistory (history s1),
                            PutArtifacts (artifacts s1), PutSettings (settings s1)] s1;
          s3 = broadcastMemoryUpdate s2;
          s4 = broadcast (ArtifactListFrame []) s3;
          s5 = broadcast (SettingsUpdate (settings s4)) s4;
          s6 = broadcast ClearChat s5
      in broadcastSystem now (''Room has been reset by '' @ orElse u ''someone'' @ ''.'') s6)"

text \<open>The chain of slash commands and mentions that follows \<open>broadcastChat\<close>.\<close>

definition chatCommand :: "int \<Rightarrow> string \<Rightarrow> string \<Rightarrow> room \<Rightarrow> room" where
  "chatCommand now u t s =
     (if startsWith t ''/remember '' then
        (let mem = trim (drop (length ''/remember '') t)
         in if mem \<noteq> [] then snd (doAddMemory mem s) else s)
      else if startsWith t ''/todo '' then
        (let x = trim (drop (length ''/todo '') t)
         in if x \<noteq> [] then snd (doAddTodo x s) else s)
      else if t = ''/memory'' then
        broadcastSystem now (orElse (formatPinnedMemory s) ''No pinned memory yet.'') s
      else if t = ''/export'' then
        broadcast (ExportFrame (pinned s) (history s) (artifacts s)) s
      else if t = ''/reset'' then resetRoom now u s
      else if t = ''/summarize'' then
        triggerAI now
          ''Summarize the recent discussion concisely. Highlight key points and open questions.'' s
      else if startsWith t ''@ai '' then
        (let q = trim (drop (length ''@ai '') t)
         in if q \<noteq> [] then triggerAI now q s else s)
      else if aiAutoRespond (settings s) \<and> \<not> startsWith t ''/'' then
        triggerAI now (''Respond to the latest message from '' @ u @ '': '' @ dq @ t @ dq) s
      else s)"

definition sendSnapshot :: "ws \<Rightarrow> room \<Rightarrow> room" where
  "sendSnapshot w s =
     (let s1 = fold (\<lambda>entry. ws_send w (ChatFrame (user entry) (chat_text entry) (ts entry))) (history s) s;
          s2 = ws_send w (MemoryUpdate (pinned s1)) s1;
          s3 = ws_send w (ArtifactListFrame (map indexItem (artifacts s2))) s2
      in ws_send w (SettingsUpdate (settings s3)) s3)"

text \<open>The body of \<open>webSocketMessage\<close> after the frame is parsed and \<open>lastSeen\<close> is set; the
  result is the error the handler threw, if any, and the state it leaves.\<close>

fun handleMessage :: "js_runtime \<Rightarrow> int \<Rightarrow> ws \<Rightarrow> message \<Rightarrow> room \<Rightarrow> js_error option \<times> room" where
  "handleMessage rt now w Ping s = (None, ws_send w Pong s)"
| "handleMessage rt now w (Hello cid u) s =
     (let clientId = (case cid of JStr c \<Rightarrow> Some c | _ \<Rightarrow> None);
          userName = (case u of JStr n \<Rightarrow> n | _ \<Rightarrow> ''Anonymous'');
          s1 = (case clientId of
                  None \<Rightarrow> s
                | Some c \<Rightarrow>
                    (if c \<noteq> []
                     then s\<lparr>clientIds := (clientIds s)(w \<mapsto> c), userNames := (userNames s)(w \<mapsto> userName)\<rparr>
                     else s))
      in (None, sendSnapshot w s1))"
| "handleMessage rt now w (MemoryAdd kind t0) s =
     (let t = trim t0 in
      if t = [] \<or> kind \<notin> set [''memories'', ''todos''] then (None, s)
      else if kind = ''todos'' then (None, snd (doAddTodo t s))
      else (None, snd (doAddMemory t s)))"
| "handleMessage rt now w (MemoryRemove kind index) s =
     (if kind \<notin> set [''memories'', ''todos''] then (None, s)
      else if kind = ''todos''
      then (case doDeleteTodo rt index s of (Inl e, s') \<Rightarrow> (Some e, s') | (Inr r, s') \<Rightarrow> (None, s'))
      else (case doDeleteMemory rt index s of (Inl e, s') \<Rightarrow> (Some e, s') | (Inr r, s') \<Rightarrow> (None, s')))"
| "handleMessage rt now w (MemoryToggle index) s =
     (case doToggleTodo rt index s of (Inl e, s') \<Rightarrow> (Some e, s') | (Inr r, s') \<Rightarrow> (None, s'))"
| "handleMessage rt now w (SettingsUpdateMsg upd) s =
     (case upd of
        None \<Rightarrow>
          (Some (TypeError (''Cannot read properties of undefined (reading ''
                            @ [CHR 0x27] @ ''systemPrompt'' @ [CHR 0x27] @ '')'')), s)
      | Some updates \<Rightarrow>
          (let s1 = (case p_systemPrompt updates of
                       None \<Rightarrow> s
                     | Some v \<Rightarrow> s\<lparr>settings := (settings s)\<lparr>systemPrompt := v\<rparr>\<rparr>);
               s2 = (case p_aiAutoRespond updates of
                       None \<Rightarrow> s1
                     | Some v \<Rightarrow> s1\<lparr>settings := (settings s1)\<lparr>aiAutoRespond := v\<rparr>\<rparr>);
               s3 = storage_put [PutSettings (settings s2)] s2
           in (None, broadcast (SettingsUpdate (settings s3)) s3)))"
| "handleMessage rt now w (ArtifactCreate mode artifactType0 ttl cont u) s =
     (let artifactType = orElse artifactType0 ''notes'';
          userName = orElse u (orElse (case userNames s w of None \<Rightarrow> [] | Some n \<Rightarrow> n) ''Unknown'')
      in if mode = ''ai''
         then
           (if aiRunning s
            then (None, ws_send w (ChatFrame ''System'' ''AI is busy, try again shortly.'' now) s)
            else
              (let s1 = s\<lparr>aiRunning := True\<rparr>;
                   s2 = broadcastSystem now ''AI is generating artifact...'' s1;
                   prompt = buildArtifactPrompt artifactType ttl
               in (None, s2\<lparr>pendingAI := pendingAI s2
                               @ [(ArtifactReply ttl artifactType userName,
                                   AwaitFirst (buildMessages prompt s2))]\<rparr>)))
         else (None, addArtifact rt now (orElse ttl ''Untitled'') artifactType cont userName s))"
| "handleMessage rt now w (ArtifactDelete ident) s =
     (case doDeleteArtifact ident s of (Inl e, s') \<Rightarrow> (Some e, s') | (Inr r, s') \<Rightarrow> (None, s'))"
| "handleMessage rt now w (ArtifactGet ident) s =
     (case find (\<lambda>x. art_id x = ident) (artifacts s) of
        None \<Rightarrow> (None, s)
      | Some a \<Rightarrow> (None, ws_send w (ArtifactDetail a) s))"
| "handleMessage rt now w ArtifactListMsg s =
     (None, ws_send w (ArtifactListFrame (map indexItem (artifacts s))) s)"
| "handleMessage rt now w (Chat mu mt) s =
     (case mu of
        JStr u \<Rightarrow>
          (if length u = 0 \<or> length u > 64 then (None, s)
           else
             (case mt of
                JStr t0 \<Rightarrow>
                  (if length t0 = 0 \<or> length t0 > 2000 then (None, s)
                   else
                     (let t = trim t0;
                          s1 = broadcastChat now u t s
                      in (None, chatCommand now u t s1)))
              | _ \<Rightarrow> (None, s)))
      | _ \<Rightarrow> (None, s))"
| "handleMessage rt now w OtherType s = (None, s)"

definition webSocketMessage ::
  "js_runtime \<Rightarrow> int \<Rightarrow> ws \<Rightarrow> raw_frame \<Rightarrow> room \<Rightarrow> js_error option \<times> room" where
  "webSocketMessage rt now w raw s =
     (case raw of
        Binary \<Rightarrow> (None, s)
      | Unparsable \<Rightarrow> (None, s)
      | ParsedNull \<Rightarrow>
          (Some (TypeError (''Cannot read properties of null (reading ''
                            @ [CHR 0x27] @ ''type'' @ [CHR 0x27] @ '')'')),
           s\<lparr>lastSeen := (lastSeen s)(w \<mapsto> now)\<rparr>)
      | Parsed m \<Rightarrow>
          (let s1 = s\<lparr>lastSeen := (lastSeen s)(w \<mapsto> now)\<rparr>
           in case m of
                Ping \<Rightarrow> handleMessage rt now w m s1
              | _ \<Rightarrow> handleMessage rt now w m (ensureLoaded s1)))"

section \<open>Connection lifecycle and heartbeat\<close>

text \<open>\<open>ws.close\<close> leaves a socket that was open in the closing state; on a socket that is not
  open it changes nothing (what it throws is caught).\<close>

definition cleanup :: "ws \<Rightarrow> room \<Rightarrow> room" where
  "cleanup w s =
     s\<lparr>connIds := (connIds s)(w := None), clientIds := (clientIds s)(w := None),
       userNames := (userNames s)(w := None), lastSeen := (lastSeen s)(w := None),
       readyState := (readyState s)(w := (if readyState s w = OPEN then CLOSING else readyState s w))\<rparr>"

definition ensureHeartbeatAlarm :: "int \<Rightarrow> room \<Rightarrow> room" where
  "ensureHeartbeatAlarm now s =
     (if heartbeatAlarm s then s
      else
        (let existing = st_alarm (storage s);
             s1 = (if existing = None \<or> existing = Some 0
                   then s\<lparr>storage := (storage s)\<lparr>st_alarm := Some (now + HEARTBEAT_INTERVAL_MS)\<rparr>\<rparr>
                   else s)
         in s1\<lparr>heartbeatAlarm := True\<rparr>))"

text \<open>\<open>fetch\<close> for an upgrade request; \<open>server\<close> is the new socket of the pair. A request
  that is no upgrade is answered with status 400 and changes nothing.\<close>

definition fetch :: "int \<Rightarrow> bool \<Rightarrow> ws \<Rightarrow> room \<Rightarrow> room" where
  "fetch now upgrade server s =
     (if \<not> upgrade then s
      else
        (let s1 = ensureLoaded s;
             connId = ''c'' @ showNat (nextConnId s1);
             s2 = s1\<lparr>nextConnId := Suc (nextConnId s1), sockets := sockets s1 @ [server],
                     readyState := (readyState s1)(server := OPEN)\<rparr>;
             s3 = s2\<lparr>connIds := (connIds s2)(server \<mapsto> connId), lastSeen := (lastSeen s2)(server \<mapsto> now)\<rparr>;
             s4 = ensureHeartbeatAlarm now s3
         in broadcastPresence s4))"

definition webSocketClose :: "ws \<Rightarrow> room \<Rightarrow> room" where
  "webSocketClose w s = broadcastPresence (cleanup w s)"

definition webSocketError :: "ws \<Rightarrow> room \<Rightarrow> room" where
  "webSocketError w s = broadcastPresence (cleanup w s)"

text \<open>One turn of the loop of \<open>alarm\<close> over the sockets, with the count of closed ones.\<close>

definition cullStep :: "int \<Rightarrow> ws \<Rightarrow> room \<times> nat \<Rightarrow> room \<times> nat" where
  "cullStep now w acc =
     (case acc of
        (s, culled) \<Rightarrow>
          (let last = (case lastSeen s w of None \<Rightarrow> 0 | Some t \<Rightarrow> t) in
           if now - last > STALE_TIMEOUT_MS \<and> readyState s w = OPEN
           then (cleanup w s, culled + 1)
           else (s, culled)))"

definition alarm :: "int \<Rightarrow> room \<Rightarrow> room" where
  "alarm now s =
     (let s0 = s\<lparr>heartbeatAlarm := False\<rparr> in
      case fold (cullStep now) (sockets s0) (s0, 0) of
        (s1, culled) \<Rightarrow>
          (let s2 = (if culled > 0 then broadcastPresence s1 else s1)
           in if length (getOpenSockets s2) > 0 then ensureHeartbeatAlarm now s2 else s2))"


text \<open>
  The test of the loop of \<open>alarm\<close> on one socket: it is open and was last seen more than
  \<open>STALE_TIMEOUT_MS\<close> before \<open>now\<close>, a socket with no recorded time counting as seen at time
  0. \<open>closeAll P\<close> is the state after \<open>cleanup\<close> of the open sockets that satisfy \<open>P\<close>.
\<close>

definition isStale :: "int \<Rightarrow> room \<Rightarrow> ws \<Rightarrow> bool" where
  "isStale now s w =
     (readyState s w = OPEN \<and> now - (case lastSeen s w of None \<Rightarrow> 0 | Some t \<Rightarrow> t) > STALE_TIMEOUT_MS)"

definition closeAll :: "(ws \<Rightarrow> bool) \<Rightarrow> room \<Rightarrow> room" where
  "closeAll P s =
     s\<lparr>connIds := (\<lambda>w. if P w then None else connIds s w),
       clientIds := (\<lambda>w. if P w then None else clientIds s w),
       userNames := (\<lambda>w. if P w then None else userNames s w),
       lastSeen := (\<lambda>w. if P w then None else lastSeen s w),
       readyState := (\<lambda>w. if P w then CLOSING else readyState s w)\<rparr>"

section \<open>The actor as a transition system\<close>

text \<open>
  The events the platform delivers to one actor, from a newly constructed one: a connection
  request (with a socket not yet accepted), a frame, a close or an error of a socket, the
  alarm (the platform has taken the alarm time out of the store when it runs the handler),
  the timer of the pinned-memory flush, an answer of the model to a turn in flight, and
  hibernation (only when no timer and no turn is pending).
\<close>

inductive reachable :: "js_runtime \<Rightarrow> room \<Rightarrow> bool" for rt :: js_runtime where
  start: "reachable rt (newRoom st)"
| connect: "reachable rt s \<Longrightarrow> server \<notin> set (sockets s) \<Longrightarrow> reachable rt (fetch now upgrade server s)"
| message: "reachable rt s \<Longrightarrow> reachable rt (snd (webSocketMessage rt now w raw s))"
| closed: "reachable rt s \<Longrightarrow> reachable rt (webSocketClose w s)"
| errored: "reachable rt s \<Longrightarrow> reachable rt (webSocketError w s)"
| alarmed: "reachable rt s \<Longrightarrow> reachable rt (alarm now (s\<lparr>storage := (storage s)\<lparr>st_alarm := None\<rparr>\<rparr>))"
| flushed: "reachable rt s \<Longrightarrow> pinnedFlushTimer s \<Longrightarrow> reachable rt (pinnedFlushFires s)"
| answered: "reachable rt s \<Longrightarrow> i < length (pendingAI s) \<Longrightarrow> reachable rt (aiReturns rt now i reply s)"
| hibernated: "reachable rt s \<Longrightarrow> pendingAI s = [] \<Longrightarrow> \<not> pinnedFlushTimer s \<Longrightarrow> reachable rt (hibernate s)"

text \<open>A run of chat sends: \<open>broadcastChat\<close> once for each (time, user, text).\<close>

fun chatSends :: "(int \<times> string \<times> string) list \<Rightarrow> room \<Rightarrow> room" where
  "chatSends [] s = s"
| "chatSends ((now, u, t) # es) s = chatSends es (broadcastChat now u t s)"

definition entryOf :: "int \<times> string \<times> string \<Rightarrow> ChatEntry" where
  "entryOf e = (case e of (now, u, t) \<Rightarrow> \<lparr>user = u, chat_text = t, ts = now\<rparr>)"

text \<open>The last \<open>n\<close> elements of a list, in their order.\<close>

definition lastN :: "nat \<Rightarrow> 'a list \<Rightarrow> 'a list" where
  "lastN n xs = drop (length xs - n) xs"


subsection \<open>Sample states\<close>

definition emptyStorage :: storage where
  "emptyStorage = \<lparr>st_pinned = None, st_history = None, st_artifacts = None, st_settings = None,
                    st_alarm = None\<rparr>"

definition sampleRuntime :: js_runtime where
  "sampleRuntime =
     \<lparr>stringToNumber = (\<lambda>s. NaN), otherNumberToString = (\<lambda>q. ''?''),
      JSON_parse = (\<lambda>s. Inl (Thrown ''SyntaxError'')), randomUUID = (\<lambda>n. ''uuid-'' @ showNat n),
      toLocaleDateString = (\<lambda>t. ''1/1/2026'')\<rparr>"

text \<open>A loaded room with two open connections, 1 and 2, and one with two todos as well.\<close>

definition twoClients :: room where
  "twoClients =
     (newRoom emptyStorage)
       \<lparr>connIds := [1 \<mapsto> ''c1'', 2 \<mapsto> ''c2''], lastSeen := [1 \<mapsto> 1000, 2 \<mapsto> 2000],
        heartbeatAlarm := True, loaded := True, nextConnId := 3, sockets := [1, 2],
        readyState := (\<lambda>w. if w = 1 \<or> w = 2 then OPEN else CLOSED),
        storage := emptyStorage\<lparr>st_alarm := Some 31000\<rparr>\<rparr>"

definition twoTodos :: room where
  "twoTodos =
     twoClients\<lparr>pinned := \<lparr>memories = [''launch is in May''],
                           todos = [\<lparr>todo_text = ''milk'', todo_done = False\<rparr>,
                                    \<lparr>todo_text = ''tea'', todo_done = True\<rparr>]\<rparr>\<rparr>"

text \<open>The same room with two chat entries retained and one artifact.\<close>

definition chatty :: room where
  "chatty =
     twoTodos\<lparr>history := [\<lparr>user = ''ann'', chat_text = ''hi'', ts = 100\<rparr>,
                          \<lparr>user = ''bob'', chat_text = ''/todo tea'', ts = 200\<rparr>],
              artifacts := [\<lparr>art_id = ''a-1'', art_type = ''plan'', title = ''Launch'',
                             content = ''Ship it.'', createdAt = 300, createdBy = ''ann''\<rparr>]\<rparr>"

text \<open>A store written by an earlier version of the program: the todos are plain strings.\<close>

definition legacyStore :: storage where
  "legacyStore =
     emptyStorage\<lparr>st_pinned := Some \<lparr>sp_memories = [''launch is in May''],
                                         sp_todos = LegacyTodos [''milk'', ''tea'']\<rparr>\<rparr>"

text \<open>The two connections when the alarm is due at time 60000: connection 1 was last seen at
  1000, connection 2 at 50000, and no alarm is scheduled any more.\<close>

definition dueRoom :: room where
  "dueRoom = twoClients\<lparr>lastSeen := [1 \<mapsto> 1000, 2 \<mapsto> 50000], storage := emptyStorage\<rparr>"

text \<open>The single-flight condition: the flag is set exactly when one AI turn is in flight,
  and there is never more than one.\<close>

definition singleFlight :: "room \<Rightarrow> bool" where
  "singleFlight s = (if aiRunning s then length (pendingAI s) = 1 else pendingAI s = [])"

text \<open>A room where one client has connected and sent \<open>@ai hello\<close>.\<close>

definition busyRoom :: room where
  "busyRoom =
     snd (webSocketMessage sampleRuntime 2000 1 (Parsed (Chat (JStr ''ann'') (JStr ''@ai hello'')))
            (fetch 1000 True 1 (newRoom emptyStorage)))"

section \<open>Basic facts\<close>

lemma fold_ws_send:
  "fold (\<lambda>w. ws_send w (g w)) wl s = s\<lparr>sent := sent s @ map (\<lambda>w. (w, g w)) wl\<rparr>"
  by (induction wl arbitrary: s) (simp_all add: ws_send_def)

lemma broadcast_eq:
  "broadcast f s = s\<lparr>sent := sent s @ map (\<lambda>w. (w, f)) (getOpenSockets s)\<rparr>"
  unfolding broadcast_def by (rule fold_ws_send)

lemma broadcastPresence_eq:
  "broadcastPresence s =
     s\<lparr>sent := sent s @ map (\<lambda>w. (w, PresenceFrame (length (getOpenSockets s)))) (getOpenSockets s)\<rparr>"
  unfolding broadcastPresence_def Let_def by (rule fold_ws_send)

lemma broadcastSystem_eq:
  "broadcastSystem now t s =
     s\<lparr>sent := sent s @ map (\<lambda>w. (w, ChatFrame ''System'' t now)) (getOpenSockets s)\<rparr>"
  by (simp add: broadcastSystem_def broadcast_eq)

lemma history_maybeFlushHistory: "history (maybeFlushHistory s) = history s"
  by (simp add: maybeFlushHistory_def storage_put_def Let_def)

lemma history_broadcastChat:
  "history (broadcastChat now u t s) = lastN 50 (history s @ [\<lparr>user = u, chat_text = t, ts = now\<rparr>])"
  by (simp add: broadcastChat_def broadcast_eq Let_def lastN_def MAX_HISTORY_def
      history_maybeFlushHistory)

lemma lastN_lastN_append: "lastN n (lastN n xs @ ys) = lastN n (xs @ ys)"
  by (cases "n \<le> length xs") (auto simp: lastN_def add.commute)

lemma length_lastN: "length (lastN n xs) \<le> n"
  by (simp add: lastN_def)

section \<open>Bounded history\<close>

lemma history_chatSends:
  "es \<noteq> [] \<Longrightarrow> history (chatSends es s) = lastN 50 (history s @ map entryOf es)"
proof (induction es arbitrary: s)
  case Nil
  then show ?case by simp
next
  case (Cons e es)
  obtain now u t where e: "e = (now, u, t)" by (cases e) auto
  show ?case
  proof (cases "es = []")
    case True
    then show ?thesis by (simp add: e history_broadcastChat entryOf_def)
  next
    case False
    then show ?thesis
      using Cons.IH [of "broadcastChat now u t s"]
      by (simp add: e history_broadcastChat entryOf_def lastN_lastN_append)
  qed
qed

text \<open>
  Claim C2. Whatever the history at the start, after each send of a run of chat sends (after
  the first \<open>k\<close> of them, for every \<open>k\<close> from 1 to the length of the run) the history has at
  most 50 entries and is the last 50 of the entries appended so far to the starting history,
  in the order they were appended.
\<close>

theorem C2_history_bounded:
  assumes "0 < k" and "k \<le> length es"
  shows "length (history (chatSends (take k es) s)) \<le> 50
       \<and> history (chatSends (take k es) s) = lastN 50 (history s @ map entryOf (take k es))"
proof -
  have "take k es \<noteq> []" using assms by auto
  then show ?thesis by (simp add: history_chatSends length_lastN)
qed

theorem C2_history_bounded_witness:
  "length (history (chatSends (replicate 51 (7, ''ann'', ''hi'')) (newRoom emptyStorage))) \<le> 50
   \<and> history (chatSends (replicate 51 (7, ''ann'', ''hi'')) (newRoom emptyStorage))
       = replicate 50 \<lparr>user = ''ann'', chat_text = ''hi'', ts = 7\<rparr>"
  using C2_history_bounded [of 51 "replicate 51 (7, ''ann'', ''hi'')" "newRoom emptyStorage"]
  by (simp add: lastN_def newRoom_def entryOf_def)

section \<open>System notices\<close>

text \<open>
  Claim C4, as amended. A system notice is sent to every open connection as a chat frame
  whose user is \<open>System\<close>, and it creates no entry: the history, the count of unflushed
  entries and the store stay as they were. A chat send through \<open>broadcastChat\<close> (a user
  message or an AI reply) is what appends an entry to the bounded history.
\<close>

theorem C4_system_notice_not_in_history:
  "history (broadcastSystem now t s) = history s
   \<and> historyDirty (broadcastSystem now t s) = historyDirty s
   \<and> storage (broadcastSystem now t s) = storage s
   \<and> sent (broadcastSystem now t s)
       = sent s @ map (\<lambda>w. (w, ChatFrame ''System'' t now)) (getOpenSockets s)
   \<and> history (broadcastChat now u t s)
       = lastN 50 (history s @ [\<lparr>user = u, chat_text = t, ts = now\<rparr>])"
  by (simp add: broadcastSystem_eq history_broadcastChat)

text \<open>
  Claim C4 as stated fails: with two connections open, the notice \<open>AI is thinking...\<close> reaches
  both of them and the history stays empty, while the same text sent through \<open>broadcastChat\<close>
  is appended.
\<close>

theorem C4_counterexample:
  "getOpenSockets twoClients = [1, 2]
   \<and> history (broadcastSystem 3000 ''AI is thinking...'' twoClients) = []
   \<and> history (broadcastChat 3000 ''System'' ''AI is thinking...'' twoClients)
       = [\<lparr>user = ''System'', chat_text = ''AI is thinking...'', ts = 3000\<rparr>]"
  by (simp add: twoClients_def newRoom_def broadcastSystem_eq history_broadcastChat
      getOpenSockets_def lastN_def)

section \<open>Index-based mutations out of range\<close>

lemma isInteger_of_int [simp]: "isInteger (of_int k)"
  by (simp add: isInteger_def)

lemma isInteger_numeral [simp]: "isInteger (numeral k)"
  by (simp add: isInteger_def)

lemma loaded_ensureLoaded: "loaded s \<Longrightarrow> ensureLoaded s = s"
  by (simp add: ensureLoaded_def)

lemma numberToString_int:
  "\<bar>k\<bar> \<le> 9007199254740992 \<Longrightarrow>
   numberToString rt (Fin (of_int k)) = (if k < 0 then ''-'' else []) @ showNat (nat \<bar>k\<bar>)"
proof -
  assume "\<bar>k\<bar> \<le> 9007199254740992"
  then have "rat_of_int \<bar>k\<bar> \<le> rat_of_int 9007199254740992"
    by (simp only: of_int_le_iff)
  then have "\<bar>rat_of_int k\<bar> \<le> 9007199254740992" by simp
  then show ?thesis by (simp add: numberToString_def)
qed

lemma numberToString_5: "numberToString rt (Fin 5) = ''5''"
  using numberToString_int [of 5 rt] by (simp add: showNat.simps)

lemma numberToString_m1: "numberToString rt (Fin (- 1)) = ''-1''"
  using numberToString_int [of "- 1" rt] by (simp add: showNat.simps)

lemma twoTodos_fields:
  "todos (pinned twoTodos) = [\<lparr>todo_text = ''milk'', todo_done = False\<rparr>, \<lparr>todo_text = ''tea'', todo_done = True\<rparr>]"
  "memories (pinned twoTodos) = [''launch is in May'']"
  "loaded twoTodos"
  by (simp_all add: twoTodos_def twoClients_def newRoom_def)

text \<open>
  Claim C5. For a numeric index \<open>q\<close> that is negative or not less than the length of the
  list (whole or fractional), deleting a memory, deleting a todo and toggling a todo each
  return the string that describes the range, throw nothing and return the state they were
  given. The same holds for the frames \<open>memory.remove\<close> and \<open>memory.toggle\<close> of a client on a
  loaded room: the handler throws nothing and only records the time of the frame.
\<close>

theorem C5_index_out_of_range:
  "(q < 0 \<or> of_nat (length (memories (pinned s))) \<le> q \<longrightarrow>
      doDeleteMemory rt (Fin q) s =
        (Inr (''Invalid memory index '' @ numberToString rt (Fin q) @ ''. There are ''
              @ showNat (length (memories (pinned s))) @ '' memories (0-indexed).''), s)
      \<and> (loaded s \<longrightarrow>
           webSocketMessage rt now w (Parsed (MemoryRemove ''memories'' (Fin q))) s
             = (None, s\<lparr>lastSeen := (lastSeen s)(w \<mapsto> now)\<rparr>)))
   \<and> (q < 0 \<or> of_nat (length (todos (pinned s))) \<le> q \<longrightarrow>
      doDeleteTodo rt (Fin q) s =
        (Inr (''Invalid todo index '' @ numberToString rt (Fin q) @ ''. There are ''
              @ showNat (length (todos (pinned s))) @ '' todos (0-indexed).''), s)
      \<and> doToggleTodo rt (Fin q) s =
        (Inr (''Invalid todo index '' @ numberToString rt (Fin q) @ ''. There are ''
              @ showNat (length (todos (pinned s))) @ '' todos (0-indexed).''), s)
      \<and> (loaded s \<longrightarrow>
           webSocketMessage rt now w (Parsed (MemoryRemove ''todos'' (Fin q))) s
             = (None, s\<lparr>lastSeen := (lastSeen s)(w \<mapsto> now)\<rparr>)
         \<and> webSocketMessage rt now w (Parsed (MemoryToggle (Fin q))) s
             = (None, s\<lparr>lastSeen := (lastSeen s)(w \<mapsto> now)\<rparr>)))"
  by (auto simp: doDeleteMemory_def doDeleteTodo_def doToggleTodo_def Let_def
      webSocketMessage_def loaded_ensureLoaded)

text \<open>The example of the claim: index 5 on a list of two todos; and index -1 on the
  memories.\<close>

theorem C5_index_out_of_range_witness:
  "doDeleteTodo sampleRuntime (Fin 5) twoTodos
     = (Inr ''Invalid todo index 5. There are 2 todos (0-indexed).'', twoTodos)
   \<and> doToggleTodo sampleRuntime (Fin 5) twoTodos
     = (Inr ''Invalid todo index 5. There are 2 todos (0-indexed).'', twoTodos)
   \<and> webSocketMessage sampleRuntime 9000 1 (Parsed (MemoryRemove ''todos'' (Fin 5))) twoTodos
     = (None, twoTodos\<lparr>lastSeen := (lastSeen twoTodos)(1 \<mapsto> 9000)\<rparr>)
   \<and> doDeleteMemory sampleRuntime (Fin (- 1)) twoTodos
     = (Inr ''Invalid memory index -1. There are 1 memories (0-indexed).'', twoTodos)"
  using C5_index_out_of_range [of 5 twoTodos sampleRuntime 9000 1]
        C5_index_out_of_range [of "- 1" twoTodos sampleRuntime 9000 1]
  by (simp add: twoTodos_fields numberToString_5 numberToString_m1 showNat.simps)

section \<open>Tool calls\<close>

lemma isInteger_iff_Ints: "isInteger q = (q \<in> \<int>)"
  unfolding isInteger_def by (metis Ints_of_int Ints_cases floor_of_int)

lemma toolBody_unknown:
  "name \<notin> set toolNames \<Longrightarrow> toolBody rt now name args s = (Inr (''Unknown tool: '' @ name), s)"
  by (simp add: toolBody_def toolNames_def)

text \<open>
  Claim C9. \<open>executeToolCall\<close> returns a string for every tool name and argument object; no
  error leaves it. When the body of its \<open>try\<close> block throws, the result is the text
  \<open>Tool error: \<close> followed by the error as a string; otherwise it is the string the body
  returned; and a name outside the nine tools gives the text \<open>Unknown tool: \<close> followed by
  the name, with the state untouched.
\<close>

theorem C9_tool_call_never_throws:
  "(\<forall>err. fst (toolBody rt now name args s) = Inl err \<longrightarrow>
       executeToolCall rt now name args s
         = (''Tool error: '' @ errToString err, snd (toolBody rt now name args s)))
   \<and> (\<forall>res. fst (toolBody rt now name args s) = Inr res \<longrightarrow>
       executeToolCall rt now name args s = (res, snd (toolBody rt now name args s)))
   \<and> (name \<notin> set toolNames \<longrightarrow>
       executeToolCall rt now name args s = (''Unknown tool: '' @ name, s))"
proof (intro conjI allI impI)
  fix err assume "fst (toolBody rt now name args s) = Inl err"
  then show "executeToolCall rt now name args s
         = (''Tool error: '' @ errToString err, snd (toolBody rt now name args s))"
    by (cases "toolBody rt now name args s") (simp add: executeToolCall_def)
next
  fix res assume "fst (toolBody rt now name args s) = Inr res"
  then show "executeToolCall rt now name args s = (res, snd (toolBody rt now name args s))"
    by (cases "toolBody rt now name args s") (simp add: executeToolCall_def)
next
  assume "name \<notin> set toolNames"
  then show "executeToolCall rt now name args s = (''Unknown tool: '' @ name, s)"
    by (simp add: executeToolCall_def toolBody_unknown)
qed

text \<open>Tool calls whose handler throws (a fractional index, a \<open>null\<close> argument object), one
  that succeeds and one with an unknown name.\<close>

lemma toggle_fraction:
  "toolBody sampleRuntime 0 ''toggle_todo'' (ArgsObject (\<lambda>k. if k = ''index'' then JNum (Fin (3 / 2)) else JUndefined)) twoTodos
    = (Inl (TypeError (''Cannot read properties of undefined (reading '' @ [CHR 0x27] @ ''done'' @ [CHR 0x27] @ '')'')), twoTodos)"
  by (simp add: toolBody_def doToggleTodo_def twoTodos_fields elementIndex_def isInteger_iff_Ints Let_def)

lemma add_null:
  "toolBody sampleRuntime 0 ''add_memory'' ArgsNull twoTodos
    = (Inl (TypeError (''Cannot read properties of null (reading '' @ [CHR 0x27] @ ''text'' @ [CHR 0x27] @ '')'')), twoTodos)"
  by (simp add: toolBody_def)

lemma clear_ok:
  "fst (toolBody sampleRuntime 0 ''clear_memories'' ArgsUndefined twoTodos) = Inr ''Cleared all 1 memories.''"
  by (simp add: toolBody_def doClearMemories_def twoTodos_fields Let_def showNat.simps)

theorem C9_tool_call_never_throws_witness:
  "executeToolCall sampleRuntime 0 ''toggle_todo''
       (ArgsObject (\<lambda>k. if k = ''index'' then JNum (Fin (3 / 2)) else JUndefined)) twoTodos
     = (''Tool error: TypeError: Cannot read properties of undefined (reading ''
          @ [CHR 0x27] @ ''done'' @ [CHR 0x27] @ '')'', twoTodos)
   \<and> executeToolCall sampleRuntime 0 ''add_memory'' ArgsNull twoTodos
     = (''Tool error: TypeError: Cannot read properties of null (reading ''
          @ [CHR 0x27] @ ''text'' @ [CHR 0x27] @ '')'', twoTodos)
   \<and> fst (executeToolCall sampleRuntime 0 ''clear_memories'' ArgsUndefined twoTodos)
     = ''Cleared all 1 memories.''
   \<and> executeToolCall sampleRuntime 0 ''launch_rocket'' ArgsUndefined twoTodos
     = (''Unknown tool: launch_rocket'', twoTodos)"
  using C9_tool_call_never_throws [of sampleRuntime 0 "''toggle_todo''"
          "ArgsObject (\<lambda>k. if k = ''index'' then JNum (Fin (3 / 2)) else JUndefined)" twoTodos]
        C9_tool_call_never_throws [of sampleRuntime 0 "''add_memory''" ArgsNull twoTodos]
        C9_tool_call_never_throws [of sampleRuntime 0 "''clear_memories''" ArgsUndefined twoTodos]
        C9_tool_call_never_throws [of sampleRuntime 0 "''launch_rocket''" ArgsUndefined twoTodos]
  by (simp add: toggle_fraction add_null clear_ok toolNames_def)

section \<open>The hello handshake\<close>

lemma ensureLoaded_conn:
  "clientIds (ensureLoaded s) = clientIds s"
  "userNames (ensureLoaded s) = userNames s"
  "connIds (ensureLoaded s) = connIds s"
  "lastSeen (ensureLoaded s) = lastSeen s"
  "sent (ensureLoaded s) = sent s"
  "sockets (ensureLoaded s) = sockets s"
  "readyState (ensureLoaded s) = readyState s"
  "aiRunning (ensureLoaded s) = aiRunning s"
  "pendingAI (ensureLoaded s) = pendingAI s"
  by (simp_all add: ensureLoaded_def storage_put_def Let_def
      split: option.splits stored_todos.splits list.splits)

lemma sendSnapshot_eq:
  "sendSnapshot w s =
     s\<lparr>sent := sent s @ map (\<lambda>e. (w, ChatFrame (user e) (chat_text e) (ts e))) (history s)
                @ [(w, MemoryUpdate (pinned s)), (w, ArtifactListFrame (map indexItem (artifacts s))),
                   (w, SettingsUpdate (settings s))]\<rparr>"
proof -
  have f: "\<And>es s. fold (\<lambda>entry. ws_send w (ChatFrame (user entry) (chat_text entry) (ts entry))) es s
             = s\<lparr>sent := sent s @ map (\<lambda>e. (w, ChatFrame (user e) (chat_text e) (ts e))) es\<rparr>"
    subgoal for es s by (induction es arbitrary: s) (simp_all add: ws_send_def)
    done
  show ?thesis by (simp add: sendSnapshot_def f ws_send_def Let_def)
qed

lemma chatty_fields:
  "loaded chatty"
  "sent chatty = []"
  "pinned chatty = pinned twoTodos"
  "settings chatty = DEFAULT_SETTINGS"
  "clientIds chatty = Map.empty"
  "userNames chatty = Map.empty"
  "history chatty = [\<lparr>user = ''ann'', chat_text = ''hi'', ts = 100\<rparr>,
                     \<lparr>user = ''bob'', chat_text = ''/todo tea'', ts = 200\<rparr>]"
  "artifacts chatty = [\<lparr>art_id = ''a-1'', art_type = ''plan'', title = ''Launch'',
                        content = ''Ship it.'', createdAt = 300, createdBy = ''ann''\<rparr>]"
  by (simp_all add: chatty_def twoTodos_def twoClients_def newRoom_def)

text \<open>
  Claim C10. A \<open>hello\<close> frame whose \<open>clientId\<close> is missing or is not a string registers
  nothing: the client ids and the display names are as before. The handler throws nothing,
  and after the room is hydrated it sends to that connection, in this order, one chat frame
  for each retained history entry, the pinned memory, the artifact index and the settings;
  nothing else changes but the time the connection was last seen.
\<close>

theorem C10_hello_without_client_id:
  assumes "\<forall>c. cid \<noteq> JStr c"
  shows "(let s1 = ensureLoaded (s\<lparr>lastSeen := (lastSeen s)(w \<mapsto> now)\<rparr>) in
          webSocketMessage rt now w (Parsed (Hello cid u)) s =
            (None,
             s1\<lparr>sent := sent s
                   @ map (\<lambda>e. (w, ChatFrame (user e) (chat_text e) (ts e))) (history s1)
                   @ [(w, MemoryUpdate (pinned s1)),
                      (w, ArtifactListFrame (map indexItem (artifacts s1))),
                      (w, SettingsUpdate (settings s1))]\<rparr>))
       \<and> clientIds (snd (webSocketMessage rt now w (Parsed (Hello cid u)) s)) = clientIds s
       \<and> userNames (snd (webSocketMessage rt now w (Parsed (Hello cid u)) s)) = userNames s"
proof -
  have c: "(case cid of JStr c \<Rightarrow> Some c | _ \<Rightarrow> None) = None"
    using assms by (cases cid) auto
  show ?thesis
    by (simp add: webSocketMessage_def c sendSnapshot_eq ensureLoaded_conn Let_def)
qed

theorem C10_hello_without_client_id_witness:
  "sent (snd (webSocketMessage sampleRuntime 9000 2 (Parsed (Hello JUndefined (JStr ''zoe''))) chatty))
     = [(2, ChatFrame ''ann'' ''hi'' 100), (2, ChatFrame ''bob'' ''/todo tea'' 200),
        (2, MemoryUpdate (pinned twoTodos)),
        (2, ArtifactListFrame [(''a-1'', ''plan'', ''Launch'', 300, ''ann'')]),
        (2, SettingsUpdate DEFAULT_SETTINGS)]
   \<and> clientIds (snd (webSocketMessage sampleRuntime 9000 2 (Parsed (Hello JUndefined (JStr ''zoe''))) chatty)) 2 = None
   \<and> userNames (snd (webSocketMessage sampleRuntime 9000 2 (Parsed (Hello JUndefined (JStr ''zoe''))) chatty)) 2 = None"
  using C10_hello_without_client_id
          [where cid = JUndefined and rt = sampleRuntime and now = 9000 and w = 2
             and u = "JStr ''zoe''" and s = chatty]
  by (simp add: Let_def loaded_ensureLoaded chatty_fields indexItem_def)

section \<open>Hydration\<close>

lemma ensureLoaded_twice: "ensureLoaded (ensureLoaded s) = ensureLoaded s"
proof -
  have "loaded (ensureLoaded s)"
    by (simp add: ensureLoaded_def storage_put_def Let_def
        split: option.splits stored_todos.splits list.splits)
  then show ?thesis by (rule loaded_ensureLoaded)
qed

lemma hydrate_items:
  assumes "\<not> loaded s" and "st_pinned (storage s) = Some \<lparr>sp_memories = ms, sp_todos = TodoItems items\<rparr>"
  shows "pinned (ensureLoaded s) = \<lparr>memories = ms, todos = items\<rparr>"
    and "storage (ensureLoaded s) = storage s"
    and "writes (ensureLoaded s) = writes s"
  using assms
  by (simp_all add: ensureLoaded_def storage_put_def Let_def
        split: option.splits stored_todos.splits list.splits)

lemma hydrate_legacy:
  assumes "\<not> loaded s" and "st_pinned (storage s) = Some \<lparr>sp_memories = ms, sp_todos = LegacyTodos ss\<rparr>"
  shows "pinned (ensureLoaded s) = \<lparr>memories = ms, todos = map (\<lambda>t. \<lparr>todo_text = t, todo_done = False\<rparr>) ss\<rparr>"
    and "ss \<noteq> [] \<Longrightarrow> st_pinned (storage (ensureLoaded s))
           = Some \<lparr>sp_memories = ms, sp_todos = TodoItems (map (\<lambda>t. \<lparr>todo_text = t, todo_done = False\<rparr>) ss)\<rparr>"
    and "ss \<noteq> [] \<Longrightarrow> writes (ensureLoaded s)
           = writes s @ [[PutPinned \<lparr>memories = ms, todos = map (\<lambda>t. \<lparr>todo_text = t, todo_done = False\<rparr>) ss\<rparr>]]"
    and "ss = [] \<Longrightarrow> storage (ensureLoaded s) = storage s \<and> writes (ensureLoaded s) = writes s"
  using assms
  by (simp_all add: ensureLoaded_def storage_put_def Let_def
        split: option.splits stored_todos.splits list.splits)


lemma hibernate_fields:
  "loaded (hibernate s) = False"
  "storage (hibernate s) = storage s"
  "writes (hibernate s) = writes s"
  by (simp_all add: hibernate_def)

lemma hydrate_put:
  "pinned (ensureLoaded (hibernate (storage_put [PutPinned p] s))) = p"
proof -
  have "\<not> loaded (hibernate (storage_put [PutPinned p] s))"
    by (simp add: hibernate_fields)
  moreover have "st_pinned (storage (hibernate (storage_put [PutPinned p] s)))
                   = Some \<lparr>sp_memories = memories p, sp_todos = TodoItems (todos p)\<rparr>"
    by (simp add: hibernate_fields storage_put_def)
  ultimately show ?thesis
    using hydrate_items(1) by fastforce
qed

text \<open>
  Claim C6. Hydrating an actor that is not yet loaded, over a store that holds a pinned
  memory: the pinned memory in memory is the stored one, a legacy list of strings being
  turned into items that are not done. A stored value already in the item form (or with an
  empty list) causes no write; a legacy list that is not empty is written back in the item
  form, in one \<open>put\<close> of the pinned key. Hydrating again after a restart gives the same
  pinned memory and changes neither the store nor the log of writes; a second call in the
  same activation returns the state it is given; and a pinned memory that the program put
  into the store comes back identical after a restart.
\<close>

theorem C6_hydration:
  assumes "\<not> loaded s" and "st_pinned (storage s) = Some sp"
  shows "pinned (ensureLoaded s)
           = \<lparr>memories = sp_memories sp,
              todos = (case sp_todos sp of
                         TodoItems items \<Rightarrow> items
                       | LegacyTodos ss \<Rightarrow> map (\<lambda>t. \<lparr>todo_text = t, todo_done = False\<rparr>) ss)\<rparr>
       \<and> (case sp_todos sp of
            TodoItems items \<Rightarrow>
              storage (ensureLoaded s) = storage s \<and> writes (ensureLoaded s) = writes s
          | LegacyTodos ss \<Rightarrow>
              (if ss = [] then storage (ensureLoaded s) = storage s \<and> writes (ensureLoaded s) = writes s
               else st_pinned (storage (ensureLoaded s))
                      = Some \<lparr>sp_memories = sp_memories sp,
                              sp_todos = TodoItems (map (\<lambda>t. \<lparr>todo_text = t, todo_done = False\<rparr>) ss)\<rparr>
                    \<and> writes (ensureLoaded s) = writes s @ [[PutPinned (pinned (ensureLoaded s))]]))
       \<and> pinned (ensureLoaded (hibernate (ensureLoaded s))) = pinned (ensureLoaded s)
       \<and> storage (ensureLoaded (hibernate (ensureLoaded s))) = storage (ensureLoaded s)
       \<and> writes (ensureLoaded (hibernate (ensureLoaded s))) = writes (ensureLoaded s)
       \<and> ensureLoaded (ensureLoaded s) = ensureLoaded s
       \<and> pinned (ensureLoaded (hibernate (storage_put [PutPinned p] s))) = p"
proof -
  obtain ms st where sp: "sp = \<lparr>sp_memories = ms, sp_todos = st\<rparr>" by (cases sp) auto
  show ?thesis
  proof (cases st)
    case (TodoItems items)
    have a: "pinned (ensureLoaded s) = \<lparr>memories = ms, todos = items\<rparr>"
            "storage (ensureLoaded s) = storage s" "writes (ensureLoaded s) = writes s"
      using hydrate_items [OF assms(1), of ms items] assms(2) sp TodoItems by simp_all
    have b: "\<not> loaded (hibernate (ensureLoaded s))"
            "st_pinned (storage (hibernate (ensureLoaded s))) = Some \<lparr>sp_memories = ms, sp_todos = TodoItems items\<rparr>"
      using a assms(2) sp TodoItems by (simp_all add: hibernate_fields)
    show ?thesis
      using a hydrate_items [OF b] sp TodoItems
      by (simp add: hibernate_fields ensureLoaded_twice hydrate_put)
  next
    case (LegacyTodos ss)
    let ?items = "map (\<lambda>t. \<lparr>todo_text = t, todo_done = False\<rparr>) ss"
    have h: "st_pinned (storage s) = Some \<lparr>sp_memories = ms, sp_todos = LegacyTodos ss\<rparr>"
      using assms(2) sp LegacyTodos by simp
    note a = hydrate_legacy [OF assms(1) h]
    show ?thesis
    proof (cases "ss = []")
      case True
      have b: "\<not> loaded (hibernate (ensureLoaded s))"
              "st_pinned (storage (hibernate (ensureLoaded s))) = Some \<lparr>sp_memories = ms, sp_todos = LegacyTodos ss\<rparr>"
        using a(4) True h by (simp_all add: hibernate_fields)
      show ?thesis
        using a(1) a(4) True hydrate_legacy(1,4) [OF b] sp LegacyTodos
        by (simp add: hibernate_fields ensureLoaded_twice hydrate_put)
    next
      case False
      have b: "\<not> loaded (hibernate (ensureLoaded s))"
              "st_pinned (storage (hibernate (ensureLoaded s))) = Some \<lparr>sp_memories = ms, sp_todos = TodoItems ?items\<rparr>"
        using a(2) False by (simp_all add: hibernate_fields)
      show ?thesis
        using a(1) a(2) a(3) False hydrate_items [OF b] sp LegacyTodos
        by (simp add: hibernate_fields ensureLoaded_twice hydrate_put)
    qed
  qed
qed

theorem C6_hydration_witness:
  "pinned (ensureLoaded (newRoom legacyStore))
     = \<lparr>memories = [''launch is in May''],
        todos = [\<lparr>todo_text = ''milk'', todo_done = False\<rparr>, \<lparr>todo_text = ''tea'', todo_done = False\<rparr>]\<rparr>
   \<and> st_pinned (storage (ensureLoaded (newRoom legacyStore)))
     = Some \<lparr>sp_memories = [''launch is in May''],
             sp_todos = TodoItems [\<lparr>todo_text = ''milk'', todo_done = False\<rparr>,
                                   \<lparr>todo_text = ''tea'', todo_done = False\<rparr>]\<rparr>
   \<and> writes (ensureLoaded (newRoom legacyStore)) = [[PutPinned (pinned (ensureLoaded (newRoom legacyStore)))]]
   \<and> pinned (ensureLoaded (hibernate (ensureLoaded (newRoom legacyStore))))
     = pinned (ensureLoaded (newRoom legacyStore))
   \<and> writes (ensureLoaded (hibernate (ensureLoaded (newRoom legacyStore))))
     = writes (ensureLoaded (newRoom legacyStore))"
  using C6_hydration [where s = "newRoom legacyStore"
          and sp = "\<lparr>sp_memories = [''launch is in May''], sp_todos = LegacyTodos [''milk'', ''tea'']\<rparr>"]
  by (simp add: newRoom_def legacyStore_def emptyStorage_def)

section \<open>Reset\<close>

lemma getOpenSockets_cong:
  "sockets a = sockets b \<Longrightarrow> readyState a = readyState b \<Longrightarrow> getOpenSockets a = getOpenSockets b"
  by (simp add: getOpenSockets_def)

lemma maybeFlushHistory_fields:
  "sockets (maybeFlushHistory s) = sockets s"
  "readyState (maybeFlushHistory s) = readyState s"
  "sent (maybeFlushHistory s) = sent s"
  "loaded (maybeFlushHistory s) = loaded s"
  "aiRunning (maybeFlushHistory s) = aiRunning s"
  "pendingAI (maybeFlushHistory s) = pendingAI s"
  "pinned (maybeFlushHistory s) = pinned s"
  "artifacts (maybeFlushHistory s) = artifacts s"
  "settings (maybeFlushHistory s) = settings s"
  "clientIds (maybeFlushHistory s) = clientIds s"
  "userNames (maybeFlushHistory s) = userNames s"
  by (simp_all add: maybeFlushHistory_def storage_put_def Let_def)

lemma broadcastChat_fields:
  "sockets (broadcastChat now u t s) = sockets s"
  "readyState (broadcastChat now u t s) = readyState s"
  "getOpenSockets (broadcastChat now u t s) = getOpenSockets s"
  "sent (broadcastChat now u t s) = sent s @ map (\<lambda>c. (c, ChatFrame u t now)) (getOpenSockets s)"
  "loaded (broadcastChat now u t s) = loaded s"
  "aiRunning (broadcastChat now u t s) = aiRunning s"
  "pendingAI (broadcastChat now u t s) = pendingAI s"
  "pinned (broadcastChat now u t s) = pinned s"
  "artifacts (broadcastChat now u t s) = artifacts s"
  "settings (broadcastChat now u t s) = settings s"
  by (simp_all add: broadcastChat_def broadcast_eq Let_def maybeFlushHistory_fields getOpenSockets_def)

lemma ensureLoaded_open: "getOpenSockets (ensureLoaded s) = getOpenSockets s"
  by (simp add: getOpenSockets_def ensureLoaded_conn)

lemma loaded_after_ensureLoaded: "loaded (ensureLoaded s)"
  by (simp add: ensureLoaded_def storage_put_def Let_def
        split: option.splits stored_todos.splits list.splits)

lemma resetRoom_fields:
  "history (resetRoom now u s) = []"
  "pinned (resetRoom now u s) = \<lparr>memories = [], todos = []\<rparr>"
  "artifacts (resetRoom now u s) = []"
  "settings (resetRoom now u s) = DEFAULT_SETTINGS"
  "loaded (resetRoom now u s) = loaded s"
  "getOpenSockets (resetRoom now u s) = getOpenSockets s"
  "writes (resetRoom now u s)
     = writes s @ [[PutPinned \<lparr>memories = [], todos = []\<rparr>, PutHistory [], PutArtifacts [],
                    PutSettings DEFAULT_SETTINGS]]"
  "st_pinned (storage (resetRoom now u s)) = Some \<lparr>sp_memories = [], sp_todos = TodoItems []\<rparr>"
  "st_history (storage (resetRoom now u s)) = Some []"
  "st_artifacts (storage (resetRoom now u s)) = Some []"
  "st_settings (storage (resetRoom now u s))
     = Some \<lparr>p_systemPrompt = Some DEFAULT_SYSTEM_PROMPT, p_aiAutoRespond = Some False\<rparr>"
  "sent (resetRoom now u s)
     = sent s @ concat (map (\<lambda>f. map (\<lambda>c. (c, f)) (getOpenSockets s))
         [MemoryUpdate \<lparr>memories = [], todos = []\<rparr>, ArtifactListFrame [],
          SettingsUpdate DEFAULT_SETTINGS, ClearChat,
          ChatFrame ''System'' (''Room has been reset by '' @ orElse u ''someone'' @ ''.'') now])"
  by (simp_all add: resetRoom_def broadcast_eq broadcastSystem_eq broadcastMemoryUpdate_def
        storage_put_def getOpenSockets_def Let_def DEFAULT_SETTINGS_def)

lemma chatCommand_reset: "chatCommand now u ''/reset'' s = resetRoom now u s"
  by (simp add: chatCommand_def startsWith_def)


lemma hello_sent:
  "sent (snd (webSocketMessage rt now w (Parsed (Hello cid u)) s))
     = sent s
       @ map (\<lambda>e. (w, ChatFrame (user e) (chat_text e) (ts e)))
           (history (ensureLoaded (s\<lparr>lastSeen := (lastSeen s)(w \<mapsto> now)\<rparr>)))
       @ [(w, MemoryUpdate (pinned (ensureLoaded (s\<lparr>lastSeen := (lastSeen s)(w \<mapsto> now)\<rparr>)))),
          (w, ArtifactListFrame (map indexItem (artifacts (ensureLoaded (s\<lparr>lastSeen := (lastSeen s)(w \<mapsto> now)\<rparr>))))),
          (w, SettingsUpdate (settings (ensureLoaded (s\<lparr>lastSeen := (lastSeen s)(w \<mapsto> now)\<rparr>))))]"
  by (cases cid)
     (simp_all add: webSocketMessage_def sendSnapshot_eq ensureLoaded_conn Let_def)

lemma hydrate_unloaded:
  assumes "\<not> loaded x"
  shows "history (ensureLoaded x) = (case st_history (storage x) of None \<Rightarrow> history x | Some h \<Rightarrow> h)"
    and "artifacts (ensureLoaded x) = (case st_artifacts (storage x) of None \<Rightarrow> artifacts x | Some a \<Rightarrow> a)"
    and "settings (ensureLoaded x) =
           (case st_settings (storage x) of
              None \<Rightarrow> settings x
            | Some p \<Rightarrow> \<lparr>systemPrompt = (case p_systemPrompt p of None \<Rightarrow> systemPrompt DEFAULT_SETTINGS | Some v \<Rightarrow> v),
                         aiAutoRespond = (case p_aiAutoRespond p of None \<Rightarrow> aiAutoRespond DEFAULT_SETTINGS | Some v \<Rightarrow> v)\<rparr>)"
  using assms
  by (simp_all add: ensureLoaded_def storage_put_def Let_def
        split: option.splits stored_todos.splits list.splits)

text \<open>
  Claim C7. A valid chat frame whose trimmed text is \<open>/reset\<close>, on any room state: the
  handler throws nothing; afterwards history, pinned memory and artifacts are empty and the
  settings are the defaults; the last \<open>put\<close> of the log writes the four cleared values
  under the four keys in one call, and the store holds them; every open connection has been
  sent, after the chat frame of the command itself, the empty pinned memory, the empty
  artifact index, the default settings, a \<open>clear_chat\<close> frame and the notice of the reset. A
  \<open>hello\<close> handled next, with or without a restart of the actor in between, is answered
  with no chat frame, the empty pinned memory, the empty artifact index and the default
  settings.
\<close>

theorem C7_reset:
  assumes "0 < length u" and "length u \<le> 64" and "0 < length t0" and "length t0 \<le> 2000"
    and "trim t0 = ''/reset''"
  shows "(let res = webSocketMessage rt now w (Parsed (Chat (JStr u) (JStr t0))) s;
              r = snd res;
              cleared = \<lparr>memories = [], todos = []\<rparr>
          in fst res = None
             \<and> history r = [] \<and> pinned r = cleared \<and> artifacts r = [] \<and> settings r = DEFAULT_SETTINGS
             \<and> writes r \<noteq> []
             \<and> last (writes r)
                 = [PutPinned cleared, PutHistory [], PutArtifacts [], PutSettings DEFAULT_SETTINGS]
             \<and> st_pinned (storage r) = Some \<lparr>sp_memories = [], sp_todos = TodoItems []\<rparr>
             \<and> st_history (storage r) = Some []
             \<and> st_artifacts (storage r) = Some []
             \<and> st_settings (storage r)
                 = Some \<lparr>p_systemPrompt = Some DEFAULT_SYSTEM_PROMPT, p_aiAutoRespond = Some False\<rparr>
             \<and> sent r
                 = sent s @ concat (map (\<lambda>f. map (\<lambda>c. (c, f)) (getOpenSockets s))
                     [ChatFrame u ''/reset'' now, MemoryUpdate cleared, ArtifactListFrame [],
                      SettingsUpdate DEFAULT_SETTINGS, ClearChat,
                      ChatFrame ''System'' (''Room has been reset by '' @ u @ ''.'') now])
             \<and> sent (snd (webSocketMessage rt now2 w2 (Parsed (Hello cid u2)) r))
                 = sent r @ [(w2, MemoryUpdate cleared), (w2, ArtifactListFrame []),
                             (w2, SettingsUpdate DEFAULT_SETTINGS)]
             \<and> sent (snd (webSocketMessage rt now2 w2 (Parsed (Hello cid u2)) (hibernate r)))
                 = sent r @ [(w2, MemoryUpdate cleared), (w2, ArtifactListFrame []),
                             (w2, SettingsUpdate DEFAULT_SETTINGS)])"
proof -
  define s1 where "s1 = ensureLoaded (s\<lparr>lastSeen := (lastSeen s)(w \<mapsto> now)\<rparr>)"
  define s2 where "s2 = broadcastChat now u ''/reset'' s1"
  define r where "r = resetRoom now u s2"
  have res: "webSocketMessage rt now w (Parsed (Chat (JStr u) (JStr t0))) s = (None, r)"
    using assms
    by (simp add: webSocketMessage_def Let_def chatCommand_reset r_def s2_def s1_def)
  have open1: "getOpenSockets s1 = getOpenSockets s"
    by (simp add: s1_def getOpenSockets_def ensureLoaded_conn)
  have sent1: "sent s1 = sent s" by (simp add: s1_def ensureLoaded_conn)
  have l: "loaded r"
    by (simp add: r_def s2_def s1_def resetRoom_fields broadcastChat_fields loaded_after_ensureLoaded)
  have u: "orElse u ''someone'' = u" using assms(1) by (simp add: orElse_def)
  have sentr: "sent r = sent s @ concat (map (\<lambda>f. map (\<lambda>c. (c, f)) (getOpenSockets s))
                     [ChatFrame u ''/reset'' now, MemoryUpdate \<lparr>memories = [], todos = []\<rparr>, ArtifactListFrame [],
                      SettingsUpdate DEFAULT_SETTINGS, ClearChat,
                      ChatFrame ''System'' (''Room has been reset by '' @ u @ ''.'') now])"
    by (simp add: r_def s2_def resetRoom_fields broadcastChat_fields open1 sent1 u)
  have hello1: "sent (snd (webSocketMessage rt now2 w2 (Parsed (Hello cid u2)) r))
                 = sent r @ [(w2, MemoryUpdate \<lparr>memories = [], todos = []\<rparr>), (w2, ArtifactListFrame []),
                             (w2, SettingsUpdate DEFAULT_SETTINGS)]"
    using l by (simp add: hello_sent loaded_ensureLoaded) (simp add: r_def resetRoom_fields)
  let ?h = "(hibernate r)\<lparr>lastSeen := (lastSeen (hibernate r))(w2 \<mapsto> now2)\<rparr>"
  have nl: "\<not> loaded ?h" by (simp add: hibernate_def)
  have st: "storage ?h = storage r" by (simp add: hibernate_def)
  have hp: "st_pinned (storage ?h) = Some \<lparr>sp_memories = [], sp_todos = TodoItems []\<rparr>"
    by (simp add: hibernate_fields r_def resetRoom_fields)
  have hello2: "sent (snd (webSocketMessage rt now2 w2 (Parsed (Hello cid u2)) (hibernate r)))
                 = sent r @ [(w2, MemoryUpdate \<lparr>memories = [], todos = []\<rparr>), (w2, ArtifactListFrame []),
                             (w2, SettingsUpdate DEFAULT_SETTINGS)]"
    using hydrate_items(1) [OF nl hp]
    by (simp add: hello_sent hydrate_unloaded [OF nl] hibernate_fields)
       (simp add: r_def resetRoom_fields hibernate_def DEFAULT_SETTINGS_def)
  show ?thesis
    unfolding Let_def res fst_conv snd_conv
    using sentr hello1 hello2
    by (simp add: r_def resetRoom_fields)
qed


lemma chatty_open: "getOpenSockets chatty = [1, 2]"
  by (simp add: getOpenSockets_def chatty_def twoTodos_def twoClients_def newRoom_def)

theorem C7_reset_witness:
  "(let r = snd (webSocketMessage sampleRuntime 9000 1 (Parsed (Chat (JStr ''ann'') (JStr '' /reset ''))) chatty)
    in history r = [] \<and> pinned r = \<lparr>memories = [], todos = []\<rparr> \<and> artifacts r = []
       \<and> settings r = DEFAULT_SETTINGS
       \<and> last (writes r) = [PutPinned \<lparr>memories = [], todos = []\<rparr>, PutHistory [], PutArtifacts [],
                             PutSettings DEFAULT_SETTINGS]
       \<and> sent r = [(1, ChatFrame ''ann'' ''/reset'' 9000), (2, ChatFrame ''ann'' ''/reset'' 9000),
                   (1, MemoryUpdate \<lparr>memories = [], todos = []\<rparr>), (2, MemoryUpdate \<lparr>memories = [], todos = []\<rparr>),
                   (1, ArtifactListFrame []), (2, ArtifactListFrame []),
                   (1, SettingsUpdate DEFAULT_SETTINGS), (2, SettingsUpdate DEFAULT_SETTINGS),
                   (1, ClearChat), (2, ClearChat),
                   (1, ChatFrame ''System'' ''Room has been reset by ann.'' 9000),
                   (2, ChatFrame ''System'' ''Room has been reset by ann.'' 9000)]
       \<and> sent (snd (webSocketMessage sampleRuntime 9500 2 (Parsed (Hello (JStr ''client-b'') (JStr ''bob''))) r))
           = sent r @ [(2, MemoryUpdate \<lparr>memories = [], todos = []\<rparr>), (2, ArtifactListFrame []),
                       (2, SettingsUpdate DEFAULT_SETTINGS)])"
  using C7_reset [where u = "''ann''" and ?t0.0 = "'' /reset ''" and rt = sampleRuntime and now = 9000
          and w = 1 and s = chatty and ?now2.0 = 9500 and ?w2.0 = 2 and cid = "JStr ''client-b''"
          and ?u2.0 = "JStr ''bob''"]
  by (simp add: Let_def trim_def isWhiteSpace_def chatty_open chatty_fields)

section \<open>Heartbeat\<close>

lemma closeAll_False: "closeAll (\<lambda>w. False) s = s"
  by (simp add: closeAll_def)

lemma cullStep_eq:
  "cullStep now w (s, c) = (if isStale now s w then (cleanup w s, c + 1) else (s, c))"
  by (auto simp: cullStep_def isStale_def Let_def)

lemma cleanup_closeAll:
  "isStale now s w \<Longrightarrow> cleanup w s = closeAll (\<lambda>x. x = w) s"
  by (auto simp: cleanup_def closeAll_def isStale_def fun_eq_iff intro!: room.equality)

lemma isStale_closeAll:
  "isStale now (closeAll P s) w = (isStale now s w \<and> \<not> P w)"
  by (auto simp: isStale_def closeAll_def)

lemma closeAll_closeAll:
  "closeAll Q (closeAll P s) = closeAll (\<lambda>w. P w \<or> Q w) s"
  by (auto simp: closeAll_def fun_eq_iff intro!: room.equality)

lemma cull_fold:
  "fst (fold (cullStep now) ws (s, c)) = closeAll (\<lambda>w. w \<in> set ws \<and> isStale now s w) s
   \<and> (0 < snd (fold (cullStep now) ws (s, c)) \<longleftrightarrow> 0 < c \<or> (\<exists>w \<in> set ws. isStale now s w))"
proof (induction ws arbitrary: s c)
  case Nil
  show ?case by (simp add: closeAll_False)
next
  case (Cons w ws)
  show ?case
  proof (cases "isStale now s w")
    case True
    have P: "(\<lambda>x. x = w \<or> x \<in> set ws \<and> isStale now s x \<and> x \<noteq> w)
               = (\<lambda>x. (x = w \<or> x \<in> set ws) \<and> isStale now s x)"
      using True by auto
    show ?thesis
      using True Cons.IH [of "cleanup w s" "c + 1"]
      by (simp add: cullStep_eq cleanup_closeAll closeAll_closeAll isStale_closeAll P)
  next
    case False
    have P: "(\<lambda>x. (x = w \<or> x \<in> set ws) \<and> isStale now s x) = (\<lambda>x. x \<in> set ws \<and> isStale now s x)"
      using False by auto
    show ?thesis
      using False Cons.IH [of s c] by (auto simp: cullStep_eq P)
  qed
qed

lemma isStale_heartbeatAlarm: "isStale now (s\<lparr>heartbeatAlarm := b\<rparr>) w = isStale now s w"
  by (simp add: isStale_def)

lemma getOpenSockets_closeAll:
  "getOpenSockets (closeAll P s) = filter (\<lambda>w. \<not> P w) (getOpenSockets s)"
  by (auto simp: getOpenSockets_def closeAll_def intro: filter_cong)

lemma closeAll_fields:
  "sent (closeAll P s) = sent s"
  "storage (closeAll P s) = storage s"
  "sockets (closeAll P s) = sockets s"
  "heartbeatAlarm (closeAll P s) = heartbeatAlarm s"
  by (simp_all add: closeAll_def)

text \<open>
  Claim C8. When the alarm fires (no alarm time is left in the store): the connections that
  stay open are the open ones that are not stale; every open connection whose last-seen time
  lies more than 45000 ms before \<open>now\<close> is closed and removed from the four maps of the
  actor; a presence frame with the number of connections still open goes to each of them if
  at least one connection was reclaimed, and nothing is sent otherwise; and the alarm is set
  again, 30000 ms ahead, exactly when a connection remains open.
\<close>

theorem C8_heartbeat:
  assumes "st_alarm (storage s) = None"
  shows "(let r = alarm now s; remaining = getOpenSockets r in
          remaining = filter (\<lambda>w. \<not> isStale now s w) (getOpenSockets s)
          \<and> (\<forall>w \<in> set (sockets s). \<forall>t. readyState s w = OPEN \<and> lastSeen s w = Some t \<and> now - t > 45000 \<longrightarrow>
                readyState r w = CLOSING \<and> connIds r w = None \<and> clientIds r w = None
                \<and> userNames r w = None \<and> lastSeen r w = None)
          \<and> sent r = sent s @ (if \<exists>w \<in> set (getOpenSockets s). isStale now s w
                                then map (\<lambda>w. (w, PresenceFrame (length remaining))) remaining
                                else [])
          \<and> st_alarm (storage r) = (if remaining \<noteq> [] then Some (now + 30000) else None)
          \<and> heartbeatAlarm r = (remaining \<noteq> []))"
proof -
  define s0 where "s0 = s\<lparr>heartbeatAlarm := False\<rparr>"
  define P where "P = (\<lambda>w. w \<in> set (sockets s) \<and> isStale now s w)"
  obtain s1 culled where f: "fold (cullStep now) (sockets s0) (s0, 0) = (s1, culled)"
    by (cases "fold (cullStep now) (sockets s0) (s0, 0)") auto
  have s1: "s1 = closeAll P s0"
    using cull_fold [of now "sockets s0" s0 0] f by (simp add: P_def s0_def isStale_heartbeatAlarm)
  have c: "(0 < culled) = (\<exists>w \<in> set (sockets s). isStale now s w)"
    using cull_fold [of now "sockets s0" s0 0] f by (simp add: s0_def isStale_heartbeatAlarm)
  have c': "(\<exists>w \<in> set (sockets s). isStale now s w) = (\<exists>w \<in> set (getOpenSockets s). isStale now s w)"
    by (auto simp: getOpenSockets_def isStale_def)
  have open1: "getOpenSockets s1 = filter (\<lambda>w. \<not> isStale now s w) (getOpenSockets s)"
    unfolding s1 getOpenSockets_closeAll
    by (auto simp: P_def s0_def getOpenSockets_def intro: filter_cong)
  define s2 where "s2 = (if culled > 0 then broadcastPresence s1 else s1)"
  have open2: "getOpenSockets s2 = getOpenSockets s1"
    by (simp add: s2_def broadcastPresence_eq getOpenSockets_def)
  have r: "alarm now s = (if length (getOpenSockets s2) > 0 then ensureHeartbeatAlarm now s2 else s2)"
    using f by (simp add: alarm_def Let_def s0_def s2_def)
  have s2f: "heartbeatAlarm s2 = False" "st_alarm (storage s2) = None"
            "sent s2 = sent s @ (if culled > 0 then map (\<lambda>w. (w, PresenceFrame (length (getOpenSockets s1)))) (getOpenSockets s1) else [])"
    using assms by (simp_all add: s2_def s1 broadcastPresence_eq closeAll_fields s0_def)
  have openr: "getOpenSockets (alarm now s) = getOpenSockets s1"
    unfolding r using open2 by (simp add: ensureHeartbeatAlarm_def getOpenSockets_def Let_def)
  have maps: "\<And>w. P w \<Longrightarrow> readyState (alarm now s) w = CLOSING \<and> connIds (alarm now s) w = None
                 \<and> clientIds (alarm now s) w = None \<and> userNames (alarm now s) w = None
                 \<and> lastSeen (alarm now s) w = None"
    unfolding r s2_def s1
    by (simp add: ensureHeartbeatAlarm_def broadcastPresence_eq closeAll_def Let_def)
  have stale: "\<And>w t. w \<in> set (sockets s) \<Longrightarrow> readyState s w = OPEN \<Longrightarrow> lastSeen s w = Some t
                 \<Longrightarrow> now - t > 45000 \<Longrightarrow> P w"
    by (simp add: P_def isStale_def STALE_TIMEOUT_MS_def)
  have sentr: "sent (alarm now s) = sent s2"
    unfolding r by (simp add: ensureHeartbeatAlarm_def Let_def)
  have al: "st_alarm (storage (alarm now s)) = (if getOpenSockets s1 \<noteq> [] then Some (now + 30000) else None)"
           "heartbeatAlarm (alarm now s) = (getOpenSockets s1 \<noteq> [])"
    unfolding r using s2f open2
    by (simp_all add: ensureHeartbeatAlarm_def Let_def HEARTBEAT_INTERVAL_MS_def)
  show ?thesis
    unfolding Let_def openr
    using open1 maps stale sentr s2f(3) al c c'
    by auto
qed


lemma dueRoom_fields:
  "sockets dueRoom = [1, 2]"
  "getOpenSockets dueRoom = [1, 2]"
  "readyState dueRoom = (\<lambda>w. if w = 1 \<or> w = 2 then OPEN else CLOSED)"
  "lastSeen dueRoom = [1 \<mapsto> 1000, 2 \<mapsto> 50000]"
  "sent dueRoom = []"
  "st_alarm (storage dueRoom) = None"
  by (simp_all add: dueRoom_def twoClients_def newRoom_def emptyStorage_def getOpenSockets_def)

theorem C8_heartbeat_witness:
  "(let r = alarm 60000 dueRoom in
      getOpenSockets r = [2] \<and> readyState r 1 = CLOSING \<and> connIds r 1 = None \<and> lastSeen r 1 = None
      \<and> sent r = [(2, PresenceFrame 1)]
      \<and> st_alarm (storage r) = Some 90000 \<and> heartbeatAlarm r)"
  using C8_heartbeat [where s = dueRoom and now = 60000]
  by (simp add: Let_def dueRoom_fields isStale_def STALE_TIMEOUT_MS_def)

section \<open>Single flight of the AI turn\<close>

named_theorems ai_frame

lemma ai_ws_send [ai_frame]:
  "aiRunning (ws_send w f s) = aiRunning s" "pendingAI (ws_send w f s) = pendingAI s"
  by (simp_all add: ws_send_def)

lemma ai_broadcast [ai_frame]:
  "aiRunning (broadcast f s) = aiRunning s" "pendingAI (broadcast f s) = pendingAI s"
  "aiRunning (broadcastPresence s) = aiRunning s" "pendingAI (broadcastPresence s) = pendingAI s"
  "aiRunning (broadcastSystem now t s) = aiRunning s" "pendingAI (broadcastSystem now t s) = pendingAI s"
  "aiRunning (broadcastMemoryUpdate s) = aiRunning s" "pendingAI (broadcastMemoryUpdate s) = pendingAI s"
  by (simp_all add: broadcast_eq broadcastPresence_eq broadcastSystem_eq broadcastMemoryUpdate_def)

lemma ai_persist [ai_frame]:
  "aiRunning (storage_put kvs s) = aiRunning s" "pendingAI (storage_put kvs s) = pendingAI s"
  "aiRunning (schedulePinnedFlush s) = aiRunning s" "pendingAI (schedulePinnedFlush s) = pendingAI s"
  "aiRunning (pinnedFlushFires s) = aiRunning s" "pendingAI (pinnedFlushFires s) = pendingAI s"
  by (simp_all add: storage_put_def schedulePinnedFlush_def pinnedFlushFires_def Let_def)

lemma ai_chat [ai_frame]:
  "aiRunning (broadcastChat now u t s) = aiRunning s" "pendingAI (broadcastChat now u t s) = pendingAI s"
  "aiRunning (ensureLoaded s) = aiRunning s" "pendingAI (ensureLoaded s) = pendingAI s"
  by (simp_all add: broadcastChat_fields ensureLoaded_conn)

lemma ai_memory [ai_frame]:
  "aiRunning (snd (doAddMemory t s)) = aiRunning s" "pendingAI (snd (doAddMemory t s)) = pendingAI s"
  "aiRunning (snd (doAddTodo t s)) = aiRunning s" "pendingAI (snd (doAddTodo t s)) = pendingAI s"
  "aiRunning (snd (doDeleteMemory rt i s)) = aiRunning s" "pendingAI (snd (doDeleteMemory rt i s)) = pendingAI s"
  "aiRunning (snd (doDeleteTodo rt i s)) = aiRunning s" "pendingAI (snd (doDeleteTodo rt i s)) = pendingAI s"
  "aiRunning (snd (doToggleTodo rt i s)) = aiRunning s" "pendingAI (snd (doToggleTodo rt i s)) = pendingAI s"
  "aiRunning (snd (doClearMemories s)) = aiRunning s" "pendingAI (snd (doClearMemories s)) = pendingAI s"
  "aiRunning (snd (doClearTodos s)) = aiRunning s" "pendingAI (snd (doClearTodos s)) = pendingAI s"
  by (simp_all add: doAddMemory_def doAddTodo_def doDeleteMemory_def doDeleteTodo_def
        doToggleTodo_def doClearMemories_def doClearTodos_def Let_def ai_frame
        split: prod.splits option.splits)

lemma ai_artifact [ai_frame]:
  "aiRunning (addArtifact rt now a b c d s) = aiRunning s" "pendingAI (addArtifact rt now a b c d s) = pendingAI s"
  "aiRunning (snd (doCreateArtifact rt now a b c s)) = aiRunning s"
  "pendingAI (snd (doCreateArtifact rt now a b c s)) = pendingAI s"
  "aiRunning (snd (doDeleteArtifact x s)) = aiRunning s" "pendingAI (snd (doDeleteArtifact x s)) = pendingAI s"
  by (simp_all add: addArtifact_def doCreateArtifact_def doDeleteArtifact_def Let_def ai_frame
        split: option.splits)

lemma ai_toolBody [ai_frame]:
  "aiRunning (snd (toolBody rt now name args s)) = aiRunning s"
  "pendingAI (snd (toolBody rt now name args s)) = pendingAI s"
  by (simp_all add: toolBody_def ai_frame split: sum.splits)

lemma ai_executeToolCall [ai_frame]:
  "aiRunning (snd (executeToolCall rt now name args s)) = aiRunning s"
  "pendingAI (snd (executeToolCall rt now name args s)) = pendingAI s"
  using ai_toolBody [of rt now name args s]
  by (auto simp: executeToolCall_def split: prod.splits sum.splits)

lemma ai_runToolCalls [ai_frame]:
  "aiRunning (snd (runToolCalls rt now cs msgs s)) = aiRunning s"
  "pendingAI (snd (runToolCalls rt now cs msgs s)) = pendingAI s"
proof (induction cs arbitrary: msgs s)
  case Nil
  { case 1 show ?case by simp }
  { case 2 show ?case by simp }
next
  case (Cons c cs)
  { case 1
    show ?case
      using Cons.IH(1) ai_executeToolCall(1)
      by (cases c) (auto split: sum.splits prod.splits call_arguments.splits, (metis snd_conv)+) }
  { case 2
    show ?case
      using Cons.IH(2) ai_executeToolCall(2)
      by (cases c) (auto split: sum.splits prod.splits call_arguments.splits, (metis snd_conv)+) }
qed


lemma singleFlight_same:
  "aiRunning b = aiRunning a \<Longrightarrow> pendingAI b = pendingAI a \<Longrightarrow> singleFlight b = singleFlight a"
  by (simp add: singleFlight_def)

lemma triggerAI_busy:
  "aiRunning s \<Longrightarrow> triggerAI now p s
     = s\<lparr>sent := sent s @ map (\<lambda>c. (c, ChatFrame ''System'' ''AI is already thinking... please wait.'' now))
                           (getOpenSockets s)\<rparr>"
  by (simp add: triggerAI_def broadcastSystem_eq)

lemma triggerAI_idle:
  "\<not> aiRunning s \<Longrightarrow> aiRunning (triggerAI now p s)
     \<and> (\<exists>m. pendingAI (triggerAI now p s) = pendingAI s @ [(ChatReply, AwaitFirst m)])
     \<and> sent (triggerAI now p s)
         = sent s @ map (\<lambda>c. (c, ChatFrame ''System'' ''AI is thinking...'' now)) (getOpenSockets s)"
  by (simp add: triggerAI_def broadcastSystem_eq Let_def getOpenSockets_def)

lemma singleFlight_triggerAI: "singleFlight s \<Longrightarrow> singleFlight (triggerAI now p s)"
proof (cases "aiRunning s")
  case True
  assume "singleFlight s"
  then show ?thesis using True by (simp add: triggerAI_busy singleFlight_def)
next
  case False
  assume "singleFlight s"
  then show ?thesis using False triggerAI_idle [OF False, of now p]
    by (auto simp: singleFlight_def)
qed

lemma ai_resetRoom [ai_frame]:
  "aiRunning (resetRoom now u s) = aiRunning s" "pendingAI (resetRoom now u s) = pendingAI s"
  by (simp_all add: resetRoom_def Let_def ai_frame)

lemma ai_sendSnapshot [ai_frame]:
  "aiRunning (sendSnapshot w s) = aiRunning s" "pendingAI (sendSnapshot w s) = pendingAI s"
  by (simp_all add: sendSnapshot_eq)

named_theorems sf_frame

lemma sf_quiet [sf_frame]:
  "singleFlight (broadcast f s) = singleFlight s"
  "singleFlight (broadcastSystem now t s) = singleFlight s"
  "singleFlight (broadcastPresence s) = singleFlight s"
  "singleFlight (broadcastChat now u t s) = singleFlight s"
  "singleFlight (ensureLoaded s) = singleFlight s"
  "singleFlight (resetRoom now u s) = singleFlight s"
  "singleFlight (sendSnapshot w s) = singleFlight s"
  "singleFlight (ws_send w f s) = singleFlight s"
  "singleFlight (storage_put kvs s) = singleFlight s"
  "singleFlight (pinnedFlushFires s) = singleFlight s"
  "singleFlight (addArtifact rt now a b c d s) = singleFlight s"
  "singleFlight (snd (doAddMemory t s)) = singleFlight s"
  "singleFlight (snd (doAddTodo t s)) = singleFlight s"
  "singleFlight (snd (doDeleteMemory rt i s)) = singleFlight s"
  "singleFlight (snd (doDeleteTodo rt i s)) = singleFlight s"
  "singleFlight (snd (doToggleTodo rt i s)) = singleFlight s"
  "singleFlight (snd (doDeleteArtifact x s)) = singleFlight s"
  by (rule singleFlight_same; simp add: ai_frame)+

lemma singleFlight_chatCommand: "singleFlight s \<Longrightarrow> singleFlight (chatCommand now u t s)"
  unfolding chatCommand_def Let_def
  by (simp add: sf_frame singleFlight_triggerAI)

lemma snd_thrown:
  "snd (case p of (Inl e, s') \<Rightarrow> (Some e, s') | (Inr r, s') \<Rightarrow> (None, s')) = snd p"
  by (cases p) (auto split: sum.splits)

lemma singleFlight_field_update:
  "singleFlight (s\<lparr>clientIds := a, userNames := b\<rparr>) = singleFlight s"
  "singleFlight (s\<lparr>settings := c\<rparr>) = singleFlight s"
  "singleFlight (s\<lparr>lastSeen := d\<rparr>) = singleFlight s"
  by (simp_all add: singleFlight_def)

lemma singleFlight_handleMessage:
  assumes "singleFlight s"
  shows "singleFlight (snd (handleMessage rt now w m s))"
proof (cases m)
  case Ping
  then show ?thesis using assms by (simp add: sf_frame)
next
  case (Hello cid u)
  then show ?thesis using assms
    by (simp add: sf_frame Let_def singleFlight_field_update split: option.splits jsval.splits)
next
  case (MemoryAdd kind t0)
  then show ?thesis using assms by (simp add: sf_frame Let_def)
next
  case (MemoryRemove kind index)
  then show ?thesis using assms by (simp add: sf_frame snd_thrown)
next
  case (MemoryToggle index)
  then show ?thesis using assms by (simp add: sf_frame snd_thrown)
next
  case (SettingsUpdateMsg upd)
  then show ?thesis using assms
    by (simp add: sf_frame Let_def singleFlight_field_update split: option.splits)
next
  case (ArtifactCreate mode ty ttl cont u)
  show ?thesis
  proof (cases "mode = ''ai''")
    case True
    then show ?thesis using assms ArtifactCreate
      by (simp add: Let_def sf_frame, simp add: singleFlight_def ai_frame)
  next
    case False
    then show ?thesis using assms ArtifactCreate by (simp add: Let_def sf_frame)
  qed
next
  case (ArtifactDelete ident)
  then show ?thesis using assms by (simp add: sf_frame snd_thrown)
next
  case (ArtifactGet ident)
  then show ?thesis using assms by (simp add: sf_frame split: option.splits)
next
  case ArtifactListMsg
  then show ?thesis using assms by (simp add: sf_frame)
next
  case (Chat mu mt)
  then show ?thesis using assms
    by (simp add: Let_def sf_frame singleFlight_chatCommand split: jsval.splits)
next
  case OtherType
  then show ?thesis using assms by simp
qed

lemma singleFlight_webSocketMessage:
  assumes "singleFlight s"
  shows "singleFlight (snd (webSocketMessage rt now w raw s))"
proof (cases raw)
  case (Parsed m)
  have a: "singleFlight (s\<lparr>lastSeen := (lastSeen s)(w \<mapsto> now)\<rparr>)"
    using assms by (simp add: singleFlight_field_update)
  show ?thesis
  proof (cases "m = Ping")
    case True
    then show ?thesis using Parsed a by (simp add: webSocketMessage_def sf_frame)
  next
    case False
    then have "webSocketMessage rt now w raw s
                 = handleMessage rt now w m (ensureLoaded (s\<lparr>lastSeen := (lastSeen s)(w \<mapsto> now)\<rparr>))"
      supply handleMessage.simps [simp del]
      using Parsed by (cases m) (simp_all add: webSocketMessage_def Let_def)
    then show ?thesis using a by (simp add: singleFlight_handleMessage sf_frame)
  qed
qed (use assms in \<open>simp_all add: webSocketMessage_def singleFlight_field_update\<close>)

lemma ai_lifecycle [ai_frame]:
  "aiRunning (cleanup w s) = aiRunning s" "pendingAI (cleanup w s) = pendingAI s"
  "aiRunning (ensureHeartbeatAlarm now s) = aiRunning s" "pendingAI (ensureHeartbeatAlarm now s) = pendingAI s"
  "aiRunning (closeAll P s) = aiRunning s" "pendingAI (closeAll P s) = pendingAI s"
  by (simp_all add: cleanup_def ensureHeartbeatAlarm_def closeAll_def Let_def)

lemma fetch_fields:
  "aiRunning (fetch now up w s) = aiRunning s"
  "pendingAI (fetch now up w s) = pendingAI s"
  "sockets (fetch now True w s) = sockets s @ [w]"
  "readyState (fetch now True w s) = (readyState s)(w := OPEN)"
  by (simp_all add: fetch_def Let_def broadcastPresence_eq ensureHeartbeatAlarm_def ensureLoaded_conn)

lemma alarm_ai:
  "aiRunning (alarm now s) = aiRunning s" "pendingAI (alarm now s) = pendingAI s"
proof -
  obtain s1 culled where f: "fold (cullStep now) (sockets s) (s\<lparr>heartbeatAlarm := False\<rparr>, 0) = (s1, culled)"
    by (cases "fold (cullStep now) (sockets s) (s\<lparr>heartbeatAlarm := False\<rparr>, 0)") auto
  have s1: "s1 = closeAll (\<lambda>w. w \<in> set (sockets s) \<and> isStale now (s\<lparr>heartbeatAlarm := False\<rparr>) w)
                   (s\<lparr>heartbeatAlarm := False\<rparr>)"
    using cull_fold [of now "sockets s" "s\<lparr>heartbeatAlarm := False\<rparr>" 0] f by simp
  show "aiRunning (alarm now s) = aiRunning s" "pendingAI (alarm now s) = pendingAI s"
    using f by (simp_all add: alarm_def Let_def s1 ai_frame)
qed

lemma singleFlight_lifecycle [sf_frame]:
  "singleFlight (fetch now up w s) = singleFlight s"
  "singleFlight (webSocketClose w s) = singleFlight s"
  "singleFlight (webSocketError w s) = singleFlight s"
  "singleFlight (alarm now (s\<lparr>storage := x\<rparr>)) = singleFlight s"
     apply (rule singleFlight_same; simp add: fetch_fields)
    apply (rule singleFlight_same; simp add: webSocketClose_def ai_frame)
   apply (rule singleFlight_same; simp add: webSocketError_def ai_frame)
  apply (rule singleFlight_same; simp add: alarm_ai)
  done

lemma aiSettle_fields:
  "aiRunning (aiSettle rt now th outcome s) = False"
  "pendingAI (aiSettle rt now th outcome s) = pendingAI s"
  by (simp_all add: aiSettle_def Let_def ai_frame split: sum.splits ai_then.splits)

lemma callAI_first_fields:
  "aiRunning (snd (callAI_first rt now msgs reply s)) = aiRunning s"
  "pendingAI (snd (callAI_first rt now msgs reply s)) = pendingAI s"
proof -
  have a: "\<And>cs m. aiRunning (snd (case runToolCalls rt now cs m s of
                  (Inl e, s') \<Rightarrow> (Settled (Inl e), s')
                | (Inr msgs', s') \<Rightarrow> (Continue msgs', s'))) = aiRunning s"
    subgoal for cs m
      using ai_runToolCalls(1) [of rt now cs m s]
      by (cases "runToolCalls rt now cs m s") (auto split: sum.splits)
    done
  have b: "\<And>cs m. pendingAI (snd (case runToolCalls rt now cs m s of
                  (Inl e, s') \<Rightarrow> (Settled (Inl e), s')
                | (Inr msgs', s') \<Rightarrow> (Continue msgs', s'))) = pendingAI s"
    subgoal for cs m
      using ai_runToolCalls(2) [of rt now cs m s]
      by (cases "runToolCalls rt now cs m s") (auto split: sum.splits)
    done
  show "aiRunning (snd (callAI_first rt now msgs reply s)) = aiRunning s"
    unfolding callAI_first_def
    by (simp add: a split: infer_reply.splits option.splits list.splits)
  show "pendingAI (snd (callAI_first rt now msgs reply s)) = pendingAI s"
    unfolding callAI_first_def
    by (simp add: b split: infer_reply.splits option.splits list.splits)
qed

text \<open>An answer of the model to the one turn in flight: the turn completes, or it goes on
  waiting for the second answer.\<close>

lemma aiReturns_single:
  assumes "aiRunning s" and "pendingAI s = [(th, stage)]"
  shows "(pendingAI (aiReturns rt now 0 reply s) = [] \<and> \<not> aiRunning (aiReturns rt now 0 reply s))
       \<or> (aiRunning (aiReturns rt now 0 reply s)
          \<and> (\<exists>m m'. stage = AwaitFirst m \<and> pendingAI (aiReturns rt now 0 reply s) = [(th, AwaitSecond m')]))"
proof (cases stage)
  case (AwaitFirst msgs)
  obtain prog s1 where c: "callAI_first rt now msgs reply s = (prog, s1)"
    by (cases "callAI_first rt now msgs reply s") auto
  have f: "aiRunning s1 = aiRunning s" "pendingAI s1 = pendingAI s"
    using callAI_first_fields [of rt now msgs reply s] c by simp_all
  show ?thesis
  proof (cases prog)
    case (Settled outcome)
    then show ?thesis
      using assms AwaitFirst c f
      by (simp add: aiReturns_def aiSettle_fields removeAt_def)
  next
    case (Continue msgs')
    then show ?thesis
      using assms AwaitFirst c f
      by (simp add: aiReturns_def)
  qed
next
  case (AwaitSecond msgs)
  then show ?thesis
    using assms by (simp add: aiReturns_def aiSettle_fields removeAt_def)
qed

lemma singleFlight_aiReturns:
  assumes "singleFlight s" and "i < length (pendingAI s)"
  shows "singleFlight (aiReturns rt now i reply s)"
proof -
  have r: "aiRunning s" using assms by (auto simp: singleFlight_def split: if_splits)
  then have "length (pendingAI s) = 1" using assms by (simp add: singleFlight_def)
  then obtain th stage where p: "pendingAI s = [(th, stage)]"
    by (cases "pendingAI s") auto
  have i: "i = 0" using assms(2) p by simp
  show ?thesis
    using aiReturns_single [OF r p, of rt now reply] i
    by (auto simp: singleFlight_def)
qed

lemma singleFlight_hibernate: "pendingAI s = [] \<Longrightarrow> singleFlight (hibernate s)"
  by (simp add: singleFlight_def hibernate_def)

lemma reachable_singleFlight: "reachable rt s \<Longrightarrow> singleFlight s"
proof (induction rule: reachable.induct)
  case (start st)
  show ?case by (simp add: singleFlight_def newRoom_def)
next
  case (message s now w raw)
  then show ?case by (simp add: singleFlight_webSocketMessage)
next
  case (answered s i now reply)
  then show ?case by (simp add: singleFlight_aiReturns)
next
  case (hibernated s)
  then show ?case by (simp add: singleFlight_hibernate)
qed (simp_all add: sf_frame)

text \<open>
  Claim C1. In every state the actor can reach, the flag \<open>aiRunning\<close> is set exactly while
  one AI turn is in flight, and never more than one is. A call of \<open>triggerAI\<close> while the flag
  is set sends one notice \<open>AI is already thinking... please wait.\<close> to each open connection
  and changes nothing else: no turn is started or queued. An answer of the model to the turn
  in flight either completes the turn, after which no turn is in flight and the flag is
  false, or (after tool calls) leaves this one turn waiting for its second answer. And the
  handlers chained to the turn reset the flag whether the turn ended with a reply or with an
  error.
\<close>

theorem C1_single_flight:
  assumes "reachable rt s"
  shows "singleFlight s
       \<and> (aiRunning s \<longrightarrow>
            triggerAI now p s
              = s\<lparr>sent := sent s @ map (\<lambda>c. (c, ChatFrame ''System'' ''AI is already thinking... please wait.'' now))
                                    (getOpenSockets s)\<rparr>)
       \<and> (aiRunning s \<longrightarrow>
            (let r = aiReturns rt now 0 reply s in
               (pendingAI r = [] \<and> \<not> aiRunning r)
               \<or> (aiRunning r \<and> (\<exists>th m m'. pendingAI s = [(th, AwaitFirst m)]
                                          \<and> pendingAI r = [(th, AwaitSecond m')]))))
       \<and> aiRunning (aiSettle rt now th outcome x) = False"
proof -
  have sf: "singleFlight s" using assms by (rule reachable_singleFlight)
  have busy: "aiRunning s \<longrightarrow>
            (let r = aiReturns rt now 0 reply s in
               (pendingAI r = [] \<and> \<not> aiRunning r)
               \<or> (aiRunning r \<and> (\<exists>th m m'. pendingAI s = [(th, AwaitFirst m)]
                                          \<and> pendingAI r = [(th, AwaitSecond m')])))"
  proof
    assume r: "aiRunning s"
    then have "length (pendingAI s) = 1" using sf by (simp add: singleFlight_def)
    then obtain th stage where p: "pendingAI s = [(th, stage)]"
      by (cases "pendingAI s") auto
    show "let r = aiReturns rt now 0 reply s in
               (pendingAI r = [] \<and> \<not> aiRunning r)
               \<or> (aiRunning r \<and> (\<exists>th m m'. pendingAI s = [(th, AwaitFirst m)]
                                          \<and> pendingAI r = [(th, AwaitSecond m')]))"
      using aiReturns_single [OF r p, of rt now reply] p by (auto simp: Let_def)
  qed
  show ?thesis
    using sf busy by (simp add: triggerAI_busy aiSettle_fields)
qed

section \<open>Chat frames\<close>

lemma chat_frame_eq:
  assumes "0 < length u" and "length u \<le> 64" and "0 < length t0" and "length t0 \<le> 2000"
  shows "webSocketMessage rt now w (Parsed (Chat (JStr u) (JStr t0))) s
           = (None, chatCommand now u (trim t0)
                      (broadcastChat now u (trim t0) (ensureLoaded (s\<lparr>lastSeen := (lastSeen s)(w \<mapsto> now)\<rparr>))))"
  using assms by (simp add: webSocketMessage_def Let_def)

lemma chatCommand_mention: "chatCommand now u ''@ai hello'' s = triggerAI now ''hello'' s"
  by (simp add: chatCommand_def startsWith_def trim_def isWhiteSpace_def)

lemma chatCommand_plain:
  "\<not> aiAutoRespond (settings s) \<Longrightarrow> chatCommand now u ''hi'' s = s"
  by (simp add: chatCommand_def startsWith_def)

lemma chatCommand_todo:
  "chatCommand now u ''/todo tea'' s = snd (doAddTodo ''tea'' s)"
  by (simp add: chatCommand_def startsWith_def trim_def isWhiteSpace_def)

lemma doAdd_sent:
  "sent (snd (doAddMemory t s))
     = sent s @ map (\<lambda>c. (c, MemoryUpdate ((pinned s)\<lparr>memories := memories (pinned s) @ [t]\<rparr>))) (getOpenSockets s)"
  "sent (snd (doAddTodo t s))
     = sent s @ map (\<lambda>c. (c, MemoryUpdate ((pinned s)\<lparr>todos := todos (pinned s) @ [\<lparr>todo_text = t, todo_done = False\<rparr>]\<rparr>)))
                  (getOpenSockets s)"
  by (simp_all add: doAddMemory_def doAddTodo_def Let_def broadcastMemoryUpdate_def broadcast_eq
        schedulePinnedFlush_def getOpenSockets_def)

lemma triggerAI_sent: "\<exists>rest. sent (triggerAI now p s) = sent s @ rest"
  by (cases "aiRunning s") (simp_all add: triggerAI_busy triggerAI_idle)

lemma sent_chatCommand: "\<exists>rest. sent (chatCommand now u t s) = sent s @ rest"
  unfolding chatCommand_def Let_def
  by (simp add: doAdd_sent broadcastSystem_eq broadcast_eq resetRoom_fields triggerAI_sent)

text \<open>
  Claim C3, as amended. For a valid chat frame (user and text not empty, at most 64 and 2000
  characters), the message with its text trimmed of surrounding white space is appended to the
  bounded history and sent to every open connection first; the slash commands and mentions
  are then interpreted on that trimmed text, in the state where the message is already
  appended and sent, so whatever the command sends comes after the chat frames.
\<close>

theorem C3_broadcast_before_command:
  assumes "0 < length u" and "length u \<le> 64" and "0 < length t0" and "length t0 \<le> 2000"
  shows "(let s1 = ensureLoaded (s\<lparr>lastSeen := (lastSeen s)(w \<mapsto> now)\<rparr>);
              t = trim t0;
              s2 = broadcastChat now u t s1;
              res = webSocketMessage rt now w (Parsed (Chat (JStr u) (JStr t0))) s
          in res = (None, chatCommand now u t s2)
             \<and> history s2 = lastN 50 (history s1 @ [\<lparr>user = u, chat_text = t, ts = now\<rparr>])
             \<and> sent s2 = sent s @ map (\<lambda>c. (c, ChatFrame u t now)) (getOpenSockets s)
             \<and> (\<exists>rest. sent (snd res) = sent s2 @ rest))"
proof -
  define s1 where "s1 = ensureLoaded (s\<lparr>lastSeen := (lastSeen s)(w \<mapsto> now)\<rparr>)"
  have a: "sent s1 = sent s" "getOpenSockets s1 = getOpenSockets s"
    by (simp_all add: s1_def ensureLoaded_conn getOpenSockets_def)
  show ?thesis
    unfolding Let_def chat_frame_eq [OF assms] s1_def [symmetric]
    using sent_chatCommand [of now u "trim t0" "broadcastChat now u (trim t0) s1"]
    by (simp add: history_broadcastChat broadcastChat_fields a)
qed

lemma chatty_ai: "aiAutoRespond (settings chatty) = False"
  by (simp add: chatty_fields DEFAULT_SETTINGS_def)

theorem C3_broadcast_before_command_witness:
  "(let r = snd (webSocketMessage sampleRuntime 9000 2 (Parsed (Chat (JStr ''bob'') (JStr ''/todo tea ''))) chatty)
    in history r = history chatty @ [\<lparr>user = ''bob'', chat_text = ''/todo tea'', ts = 9000\<rparr>]
       \<and> (\<exists>rest. sent r = [(1, ChatFrame ''bob'' ''/todo tea'' 9000), (2, ChatFrame ''bob'' ''/todo tea'' 9000)] @ rest))"
  using C3_broadcast_before_command [where u = "''bob''" and ?t0.0 = "''/todo tea ''" and s = chatty
          and w = 2 and now = 9000 and rt = sampleRuntime]
  by (simp add: Let_def trim_def isWhiteSpace_def loaded_ensureLoaded chatty_fields chatty_open
        chatCommand_todo lastN_def doAddTodo_def broadcastMemoryUpdate_def broadcast_eq
        schedulePinnedFlush_def history_broadcastChat)

lemma twoClients_fields:
  "loaded twoClients" "sent twoClients = []" "history twoClients = []"
  "getOpenSockets twoClients = [1, 2]" "settings twoClients = DEFAULT_SETTINGS"
  by (simp_all add: twoClients_def newRoom_def getOpenSockets_def)

text \<open>
  Claim C3 as stated fails: the text \<open> hi\<close> (with a leading blank) is a valid frame, and what
  is appended and sent is \<open>hi\<close>; the text as it was received appears neither in the history
  nor in any frame.
\<close>

theorem C3_counterexample:
  "(let r = snd (webSocketMessage sampleRuntime 9000 1 (Parsed (Chat (JStr ''ann'') (JStr '' hi''))) twoClients)
    in history r = [\<lparr>user = ''ann'', chat_text = ''hi'', ts = 9000\<rparr>]
       \<and> sent r = [(1, ChatFrame ''ann'' ''hi'' 9000), (2, ChatFrame ''ann'' ''hi'' 9000)]
       \<and> \<lparr>user = ''ann'', chat_text = '' hi'', ts = 9000\<rparr> \<notin> set (history r)
       \<and> (1, ChatFrame ''ann'' '' hi'' 9000) \<notin> set (sent r))"
proof -
  have t: "trim '' hi'' = ''hi''" by (simp add: trim_def isWhiteSpace_def)
  let ?s1 = "twoClients\<lparr>lastSeen := (lastSeen twoClients)(1 \<mapsto> 9000)\<rparr>"
  have l: "ensureLoaded ?s1 = ?s1" by (rule loaded_ensureLoaded) (simp add: twoClients_fields)
  have na: "\<not> aiAutoRespond (settings (broadcastChat 9000 ''ann'' ''hi'' ?s1))"
    by (simp add: broadcastChat_fields twoClients_fields DEFAULT_SETTINGS_def)
  have o: "getOpenSockets ?s1 = [1, 2]"
    using twoClients_fields(4) by (simp add: getOpenSockets_def)
  have r: "snd (webSocketMessage sampleRuntime 9000 1 (Parsed (Chat (JStr ''ann'') (JStr '' hi''))) twoClients)
             = broadcastChat 9000 ''ann'' ''hi'' ?s1"
  proof -
    have c: "webSocketMessage sampleRuntime 9000 1 (Parsed (Chat (JStr ''ann'') (JStr '' hi''))) twoClients
               = (None, chatCommand 9000 ''ann'' (trim '' hi'')
                          (broadcastChat 9000 ''ann'' (trim '' hi'') (ensureLoaded ?s1)))"
      by (rule chat_frame_eq) simp_all
    show ?thesis
      unfolding c t l snd_conv by (rule chatCommand_plain [OF na])
  qed
  have o': "\<And>x. getOpenSockets (twoClients\<lparr>lastSeen := x\<rparr>) = [1, 2]"
    using twoClients_fields(4) by (simp add: getOpenSockets_def)
  show ?thesis
    unfolding Let_def r
    by (simp add: history_broadcastChat broadcastChat_fields o' twoClients_fields lastN_def)
qed

section \<open>A turn in flight\<close>

lemma triggerAI_open: "getOpenSockets (triggerAI now p s) = getOpenSockets s"
  by (simp add: triggerAI_def broadcastSystem_eq getOpenSockets_def Let_def)

lemma busyRoom_eq:
  "busyRoom = triggerAI 2000 ''hello''
                (broadcastChat 2000 ''ann'' ''@ai hello''
                   (ensureLoaded ((fetch 1000 True 1 (newRoom emptyStorage))
                      \<lparr>lastSeen := (lastSeen (fetch 1000 True 1 (newRoom emptyStorage)))(1 \<mapsto> 2000)\<rparr>)))"
proof -
  have t: "trim ''@ai hello'' = ''@ai hello''" by (simp add: trim_def isWhiteSpace_def)
  have c: "webSocketMessage sampleRuntime 2000 1 (Parsed (Chat (JStr ''ann'') (JStr ''@ai hello'')))
             (fetch 1000 True 1 (newRoom emptyStorage))
           = (None, chatCommand 2000 ''ann'' (trim ''@ai hello'')
                (broadcastChat 2000 ''ann'' (trim ''@ai hello'')
                   (ensureLoaded ((fetch 1000 True 1 (newRoom emptyStorage))
                      \<lparr>lastSeen := (lastSeen (fetch 1000 True 1 (newRoom emptyStorage)))(1 \<mapsto> 2000)\<rparr>))))"
    by (rule chat_frame_eq) simp_all
  show ?thesis
    unfolding busyRoom_def c t snd_conv by (rule chatCommand_mention)
qed

lemma busyRoom_reachable: "reachable sampleRuntime busyRoom"
proof -
  have "reachable sampleRuntime (newRoom emptyStorage)" by (rule reachable.start)
  moreover have "1 \<notin> set (sockets (newRoom emptyStorage))" by (simp add: newRoom_def)
  ultimately have "reachable sampleRuntime (fetch 1000 True 1 (newRoom emptyStorage))"
    by (rule reachable.connect)
  then show ?thesis unfolding busyRoom_def by (rule reachable.message)
qed

lemma busyRoom_fields:
  "aiRunning busyRoom"
  "\<exists>m. pendingAI busyRoom = [(ChatReply, AwaitFirst m)]"
  "getOpenSockets busyRoom = [1]"
proof -
  let ?s2 = "broadcastChat 2000 ''ann'' ''@ai hello''
                   (ensureLoaded ((fetch 1000 True 1 (newRoom emptyStorage))
                      \<lparr>lastSeen := (lastSeen (fetch 1000 True 1 (newRoom emptyStorage)))(1 \<mapsto> 2000)\<rparr>))"
  have idle: "\<not> aiRunning ?s2" and none: "pendingAI ?s2 = []"
    by (simp_all add: ai_frame fetch_fields newRoom_def)
  show "aiRunning busyRoom" "\<exists>m. pendingAI busyRoom = [(ChatReply, AwaitFirst m)]"
    using triggerAI_idle [OF idle, of 2000 "''hello''"] none by (simp_all add: busyRoom_eq)
  have "getOpenSockets ?s2 = [1]"
    by (simp add: broadcastChat_fields getOpenSockets_def ensureLoaded_conn fetch_fields newRoom_def)
  then show "getOpenSockets busyRoom = [1]"
    by (simp add: busyRoom_eq triggerAI_open)
qed

text \<open>A room where \<open>@ai hello\<close> has started a turn: a second trigger is refused with one
  notice, and the turn ends with the flag false on a reply and on an error.\<close>

theorem C1_single_flight_witness:
  "aiRunning busyRoom \<and> length (pendingAI busyRoom) = 1
   \<and> sent (triggerAI 3000 ''again'' busyRoom)
       = sent busyRoom @ [(1, ChatFrame ''System'' ''AI is already thinking... please wait.'' 3000)]
   \<and> pendingAI (triggerAI 3000 ''again'' busyRoom) = pendingAI busyRoom
   \<and> aiRunning (triggerAI 3000 ''again'' busyRoom)
   \<and> pendingAI (aiReturns sampleRuntime 4000 0 (InferReturned (Some ''hi there'') None) busyRoom) = []
   \<and> \<not> aiRunning (aiReturns sampleRuntime 4000 0 (InferReturned (Some ''hi there'') None) busyRoom)
   \<and> pendingAI (aiReturns sampleRuntime 4000 0 (InferThrew (Error ''boom'')) busyRoom) = []
   \<and> \<not> aiRunning (aiReturns sampleRuntime 4000 0 (InferThrew (Error ''boom'')) busyRoom)"
proof -
  obtain m where p: "pendingAI busyRoom = [(ChatReply, AwaitFirst m)]"
    using busyRoom_fields(2) by blast
  note t = C1_single_flight [OF busyRoom_reachable, where now = 3000 and p = "''again''"]
  note a = C1_single_flight [OF busyRoom_reachable, where now = 4000
             and reply = "InferReturned (Some ''hi there'') None"]
  note b = C1_single_flight [OF busyRoom_reachable, where now = 4000
             and reply = "InferThrew (Error ''boom'')"]
  have a': "pendingAI (aiReturns sampleRuntime 4000 0 (InferReturned (Some ''hi there'') None) busyRoom) = []
            \<and> \<not> aiRunning (aiReturns sampleRuntime 4000 0 (InferReturned (Some ''hi there'') None) busyRoom)"
    using a busyRoom_fields(1) p
    by (auto simp: Let_def aiReturns_def callAI_first_def replyText_def aiSettle_fields removeAt_def)
  have b': "pendingAI (aiReturns sampleRuntime 4000 0 (InferThrew (Error ''boom'')) busyRoom) = []
            \<and> \<not> aiRunning (aiReturns sampleRuntime 4000 0 (InferThrew (Error ''boom'')) busyRoom)"
    using b busyRoom_fields(1) p
    by (auto simp: Let_def aiReturns_def callAI_first_def aiSettle_fields removeAt_def)
  show ?thesis
    using t a' b' busyRoom_fields(1) busyRoom_fields(3) p
    by simp
qed

end
